theory Spec2Isabelle
  imports Main
begin

section \<open>Errors\<close>

text \<open>
  A Go \<^verbatim>\<open>error\<close> value. The code inspects errors in two ways only: it reads the
  message when it wraps a decoding error with \<^verbatim>\<open>fmt.Errorf("%s: %s", file, err)\<close>, and it
  asks \<^verbatim>\<open>os.IsNotExist(err)\<close> of the result of \<^verbatim>\<open>Stat\<close>. The \<^verbatim>\<open>nil\<close> error is \<open>None\<close> of
  \<open>error option\<close>.
\<close>

datatype error = NotExist string | Failure string

fun Error :: "error \<Rightarrow> string" where
  "Error (NotExist m) = m"
| "Error (Failure m) = m"

fun IsNotExist :: "error option \<Rightarrow> bool" where
  "IsNotExist None = False"
| "IsNotExist (Some (NotExist m)) = True"
| "IsNotExist (Some (Failure m)) = False"

definition Errorf :: "string \<Rightarrow> error \<Rightarrow> error" where
  "Errorf file err = Failure (file @ '': '' @ Error err)"

section \<open>Data model\<close>

text \<open>
  Modelled from the spec: the declarations of the struct types \<^verbatim>\<open>unit.SourceUnit\<close>,
  \<^verbatim>\<open>Repo\<close>, \<^verbatim>\<open>graph.Ref\<close>, \<^verbatim>\<open>graph.Def\<close>, \<^verbatim>\<open>graph.Doc\<close>, \<^verbatim>\<open>grapher.Output\<close>,
  \<^verbatim>\<open>config.Options\<close>, \<^verbatim>\<open>ToolchainExecOpt\<close>, \<^verbatim>\<open>sourcegraph.Def\<close> and \<^verbatim>\<open>sourcegraph.DefSpec\<close>
  are not among the sources. Each record below has the attributes section 3 of the spec
  gives the type, which are the fields that \<^verbatim>\<open>api_cmds.go\<close> reads or writes, under the
  names \<^verbatim>\<open>api_cmds.go\<close> uses. Where two Go types share a field name, the later record
  prefixes it. Pointers to decoded records are never \<^verbatim>\<open>nil\<close> in the model: the decoders
  below return records.
\<close>

record SourceUnit =
  Name :: string
  Type :: string
  Files :: "string list"

text \<open>\<open>URI\<close> is the value of the method \<^verbatim>\<open>repo.URI()\<close>.\<close>

record Repo =
  RootDir :: string
  CommitID :: string
  URI :: string

record Ref =
  File :: string
  Start :: int
  End :: int
  DefRepo :: string
  DefUnit :: string
  DefUnitType :: string
  DefPath :: string

record Def =
  Def_Path :: string
  Def_File :: string
  Def_Data :: string

record Doc =
  Doc_Path :: string
  Doc_Data :: string

text \<open>\<^verbatim>\<open>grapher.Output\<close>: the decoded graph artifact of one source unit.\<close>

record Output =
  Defs :: "Def list"
  Refs :: "Ref list"
  Docs :: "Doc list"

text \<open>
  \<^verbatim>\<open>sourcegraph.Def\<close> embeds a \<^verbatim>\<open>graph.Def\<close> and adds the rendered documentation.
  \<^verbatim>\<open>sourcegraph.Example\<close> is an opaque payload here.
\<close>

record SgDef =
  Def :: Def
  DocHTML :: string

type_synonym Example = string

record DefSpec =
  Spec_Repo :: string
  Spec_UnitType :: string
  Spec_Unit :: string
  Spec_Path :: string

text \<open>
  The anonymous struct \<^verbatim>\<open>resp\<close> of \<^verbatim>\<open>APIDescribeCmd.Execute\<close>. A \<^verbatim>\<open>nil\<close> pointer and a
  \<^verbatim>\<open>nil\<close> slice are \<open>None\<close>.
\<close>

record Resp =
  resp_Def :: "SgDef option"
  resp_Examples :: "Example list option"

record Options =
  Opt_Repo :: string
  Opt_Subdir :: string

record ToolchainExecOpt =
  ExeMethods :: string

record APIDescribeCmd =
  cmd_File :: string
  StartByte :: int
  NoExamples :: bool

record APIListCmd =
  list_File :: string

text \<open>What a command writes to standard output.\<close>

datatype stdout = Println string | JSON_Resp Resp | JSON_Refs "Ref list"

section \<open>External collaborators\<close>

text \<open>
  \<^verbatim>\<open>buildstore.RepositoryStore\<close>, as the methods \<^verbatim>\<open>api_cmds.go\<close> calls. The store reads the
  file system, which the configure and make steps change, so each reading method takes the
  state of the world \<open>'w\<close>. \<open>Walk\<close> is the sequence of \<^verbatim>\<open>w.Path()\<close> values that
  \<^verbatim>\<open>fs.WalkFS(root, buildStore)\<close> steps through; \<open>Open\<close> gives the bytes of the file.
  \<^verbatim>\<open>defer f.Close()\<close> has no effect on any result and is left out.
\<close>

record 'w RepositoryStore =
  CommitPath :: "string \<Rightarrow> string"
  FilePath :: "string \<Rightarrow> string \<Rightarrow> string"
  Stat :: "'w \<Rightarrow> string \<Rightarrow> error option"
  Walk :: "'w \<Rightarrow> string \<Rightarrow> string list"
  Open :: "'w \<Rightarrow> string \<Rightarrow> error + string"

text \<open>
  Everything else \<^verbatim>\<open>api_cmds.go\<close> calls and does not define: the functions of
  \<^verbatim>\<open>path/filepath\<close>, \<^verbatim>\<open>OpenRepo\<close>, \<^verbatim>\<open>os.Chdir\<close>, \<^verbatim>\<open>buildstore.NewRepositoryStore\<close>,
  \<^verbatim>\<open>buildstore.DataTypeSuffix(unit.SourceUnit{})\<close>, \<^verbatim>\<open>plan.SourceUnitDataFilename\<close>, the JSON
  decoder at the types \<^verbatim>\<open>*unit.SourceUnit\<close> and \<^verbatim>\<open>grapher.Output\<close>, the commands
  \<^verbatim>\<open>ConfigCmd.Execute\<close> and \<^verbatim>\<open>MakeCmd.Execute\<close> (given their options; they change the world,
  also when they fail; the configure command writes its messages to standard error), the
  remote client \<^verbatim>\<open>apiclient.Defs\<close> (\<open>Defs_Get spec doc\<close>,
  \<open>Defs_ListExamples spec formatted perPage\<close>; the \<^verbatim>\<open>Response\<close> they return is dropped by
  the code), and the error of the JSON encoder that writes to standard output.
  Log output (\<^verbatim>\<open>GlobalOpt.Verbose\<close>) is not modelled.
\<close>

record 'w env =
  filepath_Clean :: "string \<Rightarrow> string"
  filepath_Dir :: "string \<Rightarrow> string"
  filepath_Rel :: "string \<Rightarrow> string \<Rightarrow> error + string"
  filepath_Join :: "string \<Rightarrow> string \<Rightarrow> string"
  OpenRepo :: "'w \<Rightarrow> string \<Rightarrow> error + Repo"
  Chdir :: "string \<Rightarrow> 'w \<Rightarrow> error + 'w"
  NewRepositoryStore :: "string \<Rightarrow> 'w \<Rightarrow> error + 'w RepositoryStore"
  DataTypeSuffix_SourceUnit :: string
  SourceUnitDataFilename :: "string \<Rightarrow> SourceUnit \<Rightarrow> string"
  Decode_SourceUnit :: "string \<Rightarrow> error + SourceUnit"
  Decode_Output :: "string \<Rightarrow> error + Output"
  ConfigCmd_Execute :: "Options \<Rightarrow> ToolchainExecOpt \<Rightarrow> 'w \<Rightarrow> error option \<times> 'w"
  MakeCmd_Execute :: "Options \<Rightarrow> ToolchainExecOpt \<Rightarrow> 'w \<Rightarrow> error option \<times> 'w"
  Defs_Get :: "DefSpec \<Rightarrow> bool \<Rightarrow> SgDef option \<times> error option"
  Defs_ListExamples :: "DefSpec \<Rightarrow> bool \<Rightarrow> nat \<Rightarrow> Example list option \<times> error option"
  Encode :: "stdout \<Rightarrow> error option"

section \<open>ensureBuild\<close>

text \<open>
  The external steps \<^verbatim>\<open>ensureBuild\<close> runs, in the order it runs them: the model returns
  this trace beside the error and the world the steps leave.
\<close>

datatype step = Configure | Make

definition ensureBuild ::
  "'w env \<Rightarrow> 'w RepositoryStore \<Rightarrow> Repo \<Rightarrow> 'w \<Rightarrow> error option \<times> step list \<times> 'w"
where
  "ensureBuild env buildStore repo w =
     (let configOpt = \<lparr>Opt_Repo = URI repo, Opt_Subdir = ''.''\<rparr>;
          toolchainExecOpt = \<lparr>ExeMethods = ''program''\<rparr>;
          (err1, trace1, w1) =
            (if IsNotExist (Stat buildStore w (CommitPath buildStore (CommitID repo)))
             then (case ConfigCmd_Execute env configOpt toolchainExecOpt w of
                     (err, w') \<Rightarrow> (err, [Configure], w'))
             else (None, [], w))
      in case err1 of
           Some err \<Rightarrow> (Some err, trace1, w1)
         | None \<Rightarrow>
             (case MakeCmd_Execute env configOpt toolchainExecOpt w1 of
                (err2, w2) \<Rightarrow> (err2, trace1 @ [Make], w2)))"

section \<open>getSourceUnitsWithFile\<close>

text \<open>\<^verbatim>\<open>strings.HasSuffix\<close>.\<close>

definition HasSuffix :: "string \<Rightarrow> string \<Rightarrow> bool" where
  "HasSuffix s suffix \<longleftrightarrow>
     length s \<ge> length suffix \<and> drop (length s - length suffix) s = suffix"

text \<open>Lines 116-120: the walk collects the paths that end in the unit suffix.\<close>

fun walk_loop :: "string \<Rightarrow> string list \<Rightarrow> string list \<Rightarrow> string list" where
  "walk_loop unitSuffix [] unitFiles = unitFiles"
| "walk_loop unitSuffix (p # ps) unitFiles =
     walk_loop unitSuffix ps (if HasSuffix p unitSuffix then unitFiles @ [p] else unitFiles)"

text \<open>Lines 134-139: the scan of \<^verbatim>\<open>u.Files\<close>, left by \<^verbatim>\<open>break\<close> at the first hit.\<close>

fun files_loop ::
  "(string \<Rightarrow> string) \<Rightarrow> string \<Rightarrow> SourceUnit \<Rightarrow> string list \<Rightarrow> SourceUnit list \<Rightarrow> SourceUnit list"
where
  "files_loop clean filename u [] units = units"
| "files_loop clean filename u (f2 # fs) units =
     (if clean f2 = filename then units @ [u] else files_loop clean filename u fs units)"

text \<open>Lines 125-133: opening and decoding one manifest.\<close>

definition load_unit :: "'w env \<Rightarrow> 'w RepositoryStore \<Rightarrow> 'w \<Rightarrow> string \<Rightarrow> error + SourceUnit" where
  "load_unit env buildStore w unitFile =
     (case Open buildStore w unitFile of
        Inl err \<Rightarrow> Inl err
      | Inr f \<Rightarrow>
          (case Decode_SourceUnit env f of
             Inl err \<Rightarrow> Inl (Errorf unitFile err)
           | Inr u \<Rightarrow> Inr u))"

text \<open>Lines 124-140: one manifest after the other; an error returns at once.\<close>

fun unitFiles_loop ::
  "'w env \<Rightarrow> 'w RepositoryStore \<Rightarrow> 'w \<Rightarrow> string \<Rightarrow> string list \<Rightarrow> SourceUnit list
     \<Rightarrow> error + SourceUnit list"
where
  "unitFiles_loop env buildStore w filename [] units = Inr units"
| "unitFiles_loop env buildStore w filename (unitFile # rest) units =
     (case load_unit env buildStore w unitFile of
        Inl err \<Rightarrow> Inl err
      | Inr u \<Rightarrow>
          unitFiles_loop env buildStore w filename rest
            (files_loop (filepath_Clean env) filename u (Files u) units))"

text \<open>Lines 113-120: the manifests of the commit, in the order of the walk.\<close>

definition unitFiles :: "'w env \<Rightarrow> 'w RepositoryStore \<Rightarrow> 'w \<Rightarrow> Repo \<Rightarrow> string list" where
  "unitFiles env buildStore w repo =
     (let unitSuffix = DataTypeSuffix_SourceUnit env
      in walk_loop unitSuffix (Walk buildStore w (CommitPath buildStore (CommitID repo))) [])"

definition getSourceUnitsWithFile ::
  "'w env \<Rightarrow> 'w RepositoryStore \<Rightarrow> 'w \<Rightarrow> Repo \<Rightarrow> string \<Rightarrow> error + SourceUnit list"
where
  "getSourceUnitsWithFile env buildStore w repo filename0 =
     (let filename = filepath_Clean env filename0
      in unitFiles_loop env buildStore w filename (unitFiles env buildStore w repo) [])"

section \<open>The common opening of both commands\<close>

text \<open>
  Lines 146-174 of \<^verbatim>\<open>APIListCmd.Execute\<close> and lines 215-243 of \<^verbatim>\<open>APIDescribeCmd.Execute\<close>
  are the same code: clean the file, open the repository, make the file relative to its
  root, change directory, open the store, build, and find the units of the file. It gives
  the repository, the store, the world after the build, the relative file and the units.
\<close>

definition prepare ::
  "'w env \<Rightarrow> 'w \<Rightarrow> string \<Rightarrow> error + (Repo \<times> 'w RepositoryStore \<times> 'w \<times> string \<times> SourceUnit list)"
where
  "prepare env w File0 =
     (let file = filepath_Clean env File0 in
      case OpenRepo env w (filepath_Dir env file) of
        Inl err \<Rightarrow> Inl err
      | Inr repo \<Rightarrow>
      (case filepath_Rel env (RootDir repo) file of
        Inl err \<Rightarrow> Inl err
      | Inr file \<Rightarrow>
      (case Chdir env (RootDir repo) w of
        Inl err \<Rightarrow> Inl err
      | Inr w \<Rightarrow>
      (case NewRepositoryStore env (RootDir repo) w of
        Inl err \<Rightarrow> Inl err
      | Inr buildStore \<Rightarrow>
      (case ensureBuild env buildStore repo w of
        (Some err, trace, w) \<Rightarrow> Inl err
      | (None, trace, w) \<Rightarrow>
      (case getSourceUnitsWithFile env buildStore w repo file of
        Inl err \<Rightarrow> Inl err
      | Inr units \<Rightarrow> Inr (repo, buildStore, w, file, units)))))))"

text \<open>
  Opening and decoding the graph artifact of a unit, as lines 191-200, 261-270 and 306-315
  do it.
\<close>

definition load_graph :: "'w env \<Rightarrow> 'w RepositoryStore \<Rightarrow> 'w \<Rightarrow> Repo \<Rightarrow> SourceUnit \<Rightarrow> error + Output"
where
  "load_graph env buildStore w repo u =
     (let graphFile =
            FilePath buildStore (CommitID repo) (SourceUnitDataFilename env ''graph'' u)
      in case Open buildStore w graphFile of
           Inl err \<Rightarrow> Inl err
         | Inr f \<Rightarrow>
             (case Decode_Output env f of
                Inl err \<Rightarrow> Inl (Errorf graphFile err)
              | Inr g \<Rightarrow> Inr g))"

section \<open>APIListCmd.Execute\<close>

text \<open>Lines 201-205.\<close>

fun list_refs_loop :: "string \<Rightarrow> Ref list \<Rightarrow> Ref list \<Rightarrow> Ref list" where
  "list_refs_loop file [] refs = refs"
| "list_refs_loop file (ref # rest) refs =
     list_refs_loop file rest (if file = File ref then refs @ [ref] else refs)"

text \<open>Lines 190-206.\<close>

fun list_units_loop ::
  "'w env \<Rightarrow> 'w RepositoryStore \<Rightarrow> 'w \<Rightarrow> Repo \<Rightarrow> string \<Rightarrow> SourceUnit list \<Rightarrow> Ref list
     \<Rightarrow> error + Ref list"
where
  "list_units_loop env buildStore w repo file [] refs = Inr refs"
| "list_units_loop env buildStore w repo file (u # us) refs =
     (case load_graph env buildStore w repo u of
        Inl err \<Rightarrow> Inl err
      | Inr g \<Rightarrow>
          list_units_loop env buildStore w repo file us (list_refs_loop file (Refs g) refs))"

text \<open>
  Lines 208-211 and 377-380: \<^verbatim>\<open>json.NewEncoder(os.Stdout).Encode\<close>, whose error the command
  returns.
\<close>

definition encode_stdout :: "'w env \<Rightarrow> stdout \<Rightarrow> error + stdout" where
  "encode_stdout env out = (case Encode env out of Some err \<Rightarrow> Inl err | None \<Rightarrow> Inr out)"

definition APIListCmd_Execute :: "'w env \<Rightarrow> 'w \<Rightarrow> APIListCmd \<Rightarrow> error + stdout" where
  "APIListCmd_Execute env w c =
     (case prepare env w (list_File c) of
        Inl err \<Rightarrow> Inl err
      | Inr (repo, buildStore, w, file, units) \<Rightarrow>
          (case list_units_loop env buildStore w repo file units [] of
             Inl err \<Rightarrow> Inl err
           | Inr refs \<Rightarrow> encode_stdout env (JSON_Refs refs)))"

section \<open>APIDescribeCmd.Execute\<close>

text \<open>
  The spec's notion of a reference covering a byte offset of a file: the offset lies
  between \<open>Start\<close> and \<open>End\<close>, both included.
\<close>

definition covers :: "string \<Rightarrow> int \<Rightarrow> Ref \<Rightarrow> bool" where
  "covers file p r \<longleftrightarrow> File r = file \<and> Start r \<le> p \<and> p \<le> End r"

text \<open>
  The spec's locator of the definition a reference \<open>r\<close> points to, when \<open>r\<close> was found
  while scanning the unit \<open>u\<close> of the repository \<open>repo\<close>: an empty defining unit or unit type
  is that of \<open>u\<close>, an empty defining repository is \<open>repo\<close>.
\<close>

definition locator :: "Repo \<Rightarrow> SourceUnit \<Rightarrow> Ref \<Rightarrow> DefSpec" where
  "locator repo u r =
     \<lparr>Spec_Repo = (if DefRepo r = '''' then URI repo else DefRepo r),
      Spec_UnitType = (if DefUnitType r = '''' then Type u else DefUnitType r),
      Spec_Unit = (if DefUnit r = '''' then Name u else DefUnit r),
      Spec_Path = DefPath r\<rparr>"

text \<open>
  Line 272, the test of the inner loop of lines 271-282: the position of the first
  \<^verbatim>\<open>ref2\<close> of \<^verbatim>\<open>g.Refs\<close> that passes it.
\<close>

fun refs_loop :: "string \<Rightarrow> int \<Rightarrow> Ref list \<Rightarrow> nat option" where
  "refs_loop file startByte [] = None"
| "refs_loop file startByte (ref2 # rest) =
     (if file = File ref2 \<and> startByte \<ge> Start ref2 \<and> startByte \<le> End ref2 then Some 0
      else map_option Suc (refs_loop file startByte rest))"

text \<open>Lines 274-279.\<close>

definition default_unit :: "SourceUnit \<Rightarrow> Ref \<Rightarrow> Ref" where
  "default_unit u ref0 =
     (let ref = (if DefUnit ref0 = '''' then ref0\<lparr>DefUnit := Name u\<rparr> else ref0)
      in if DefUnitType ref = '''' then ref\<lparr>DefUnitType := Type u\<rparr> else ref)"

text \<open>Lines 293-295.\<close>

definition default_repo :: "Repo \<Rightarrow> Ref \<Rightarrow> Ref" where
  "default_repo repo ref = (if DefRepo ref = '''' then ref\<lparr>DefRepo := URI repo\<rparr> else ref)"

text \<open>
  Lines 259-283. \<^verbatim>\<open>g.Refs\<close> is a slice of pointers and \<^verbatim>\<open>ref = ref2\<close> copies the pointer,
  so the assignments to \<^verbatim>\<open>ref.DefUnit\<close> and \<^verbatim>\<open>ref.DefUnitType\<close> write to the record that
  the decoder made. The model keeps the records of \<^verbatim>\<open>g.Refs\<close> as a list, and the pointer
  \<^verbatim>\<open>ref\<close> as a position in it: the loop gives the position and the records after the
  writes.
\<close>

fun OuterLoop ::
  "'w env \<Rightarrow> 'w RepositoryStore \<Rightarrow> 'w \<Rightarrow> Repo \<Rightarrow> string \<Rightarrow> int \<Rightarrow> SourceUnit list
     \<Rightarrow> error + (nat \<times> Ref list) option"
where
  "OuterLoop env buildStore w repo file startByte [] = Inr None"
| "OuterLoop env buildStore w repo file startByte (u # us) =
     (case load_graph env buildStore w repo u of
        Inl err \<Rightarrow> Inl err
      | Inr g \<Rightarrow>
          (case refs_loop file startByte (Refs g) of
             Some ref \<Rightarrow> Inr (Some (ref, (Refs g)[ref := default_unit u (Refs g ! ref)]))
           | None \<Rightarrow> OuterLoop env buildStore w repo file startByte us))"

text \<open>Lines 316-321: the first \<^verbatim>\<open>def2\<close> with the path.\<close>

fun defs_loop :: "string \<Rightarrow> Def list \<Rightarrow> Def option" where
  "defs_loop path [] = None"
| "defs_loop path (def2 # rest) =
     (if Def_Path def2 = path then Some def2 else defs_loop path rest)"

text \<open>Lines 323-327: every \<^verbatim>\<open>doc\<close> with the path overwrites \<^verbatim>\<open>DocHTML\<close>.\<close>

fun docs_loop :: "string \<Rightarrow> Doc list \<Rightarrow> SgDef \<Rightarrow> SgDef" where
  "docs_loop path [] d = d"
| "docs_loop path (doc # rest) d =
     docs_loop path rest (if Doc_Path doc = path then d\<lparr>DocHTML := Doc_Data doc\<rparr> else d)"

text \<open>
  Lines 304-335, the definition looked up in the current repository. \<^verbatim>\<open>*def2\<close> is copied
  into a new \<^verbatim>\<open>sourcegraph.Def\<close>, and the writes of lines 325 and 330 go to the copy.
\<close>

definition local_def ::
  "'w env \<Rightarrow> 'w RepositoryStore \<Rightarrow> 'w \<Rightarrow> Repo \<Rightarrow> Ref \<Rightarrow> error + SgDef option"
where
  "local_def env buildStore w repo ref =
     (case load_graph env buildStore w repo
             \<lparr>Name = DefUnit ref, Type = DefUnitType ref, Files = []\<rparr> of
        Inl err \<Rightarrow> Inl err
      | Inr g \<Rightarrow>
          (case defs_loop (DefPath ref) (Defs g) of
             None \<Rightarrow> Inr None
           | Some def2 \<Rightarrow>
               (let d = docs_loop (DefPath ref) (Docs g) \<lparr>Def = def2, DocHTML = ''''\<rparr>
                in Inr (Some (d\<lparr>Def := (Def d)
                     \<lparr>Def_File := filepath_Join env (RootDir repo) (Def_File (Def d))\<rparr>\<rparr>)))))"

text \<open>Lines 337-342.\<close>

definition spec_of :: "Ref \<Rightarrow> DefSpec" where
  "spec_of ref =
     \<lparr>Spec_Repo = DefRepo ref, Spec_UnitType = DefUnitType ref, Spec_Unit = DefUnit ref,
      Spec_Path = DefPath ref\<rparr>"

text \<open>
  Lines 344-375. The requests sent to the remote client are listed in the order the
  goroutines are started. The two goroutines write different fields of \<^verbatim>\<open>resp\<close> and the
  two remote calls are functions of the locator alone here, so every interleaving gives
  the \<^verbatim>\<open>resp\<close> of running one after the other. The errors of the calls are logged and
  dropped.
\<close>

datatype request = Get DefSpec bool | ListExamples DefSpec bool nat

definition remote :: "'w env \<Rightarrow> bool \<Rightarrow> DefSpec \<Rightarrow> Resp \<Rightarrow> Resp \<times> request list" where
  "remote env noExamples spec resp0 =
     (let (resp1, requests1) =
            (if resp_Def resp0 = None
             then (resp0\<lparr>resp_Def := fst (Defs_Get env spec True)\<rparr>, [Get spec True])
             else (resp0, []));
          (resp2, requests2) =
            (if \<not> noExamples
             then (resp1\<lparr>resp_Examples := fst (Defs_ListExamples env spec True 4)\<rparr>,
                   [ListExamples spec True 4])
             else (resp1, []))
      in (resp2, requests1 @ requests2))"

text \<open>
  A run of the command: its error or what it wrote to standard output, the requests it
  sent to the remote client, and the records of \<^verbatim>\<open>g.Refs\<close> of the graph it found the
  \<^verbatim>\<open>ref\<close> in, as it leaves them (\<open>None\<close> when it found no \<^verbatim>\<open>ref\<close>).
\<close>

record run =
  result :: "error + stdout"
  requests :: "request list"
  refs_after :: "Ref list option"

text \<open>
  Lines 293-380: what the command does with the \<^verbatim>\<open>ref\<close> it found. \<open>refs0\<close> are the records
  of the graph the pointer \<open>ref\<close> points into.
\<close>

definition describe_ref ::
  "'w env \<Rightarrow> 'w RepositoryStore \<Rightarrow> 'w \<Rightarrow> Repo \<Rightarrow> bool \<Rightarrow> nat \<Rightarrow> Ref list \<Rightarrow> run"
where
  "describe_ref env buildStore w repo noExamples ref refs0 =
     (let refs = refs0[ref := default_repo repo (refs0 ! ref)];
          r = refs ! ref;
          defInCurrentRepo = (DefRepo r = URI repo)
      in case (if defInCurrentRepo then local_def env buildStore w repo r else Inr None) of
           Inl err \<Rightarrow> \<lparr>result = Inl err, requests = [], refs_after = Some refs\<rparr>
         | Inr d \<Rightarrow>
             (case remote env noExamples (spec_of r) \<lparr>resp_Def = d, resp_Examples = None\<rparr> of
                (resp, sent) \<Rightarrow>
                  \<lparr>result = encode_stdout env (JSON_Resp resp), requests = sent,
                   refs_after = Some refs\<rparr>))"

definition APIDescribeCmd_Execute :: "'w env \<Rightarrow> 'w \<Rightarrow> APIDescribeCmd \<Rightarrow> run" where
  "APIDescribeCmd_Execute env w c =
     (case prepare env w (cmd_File c) of
        Inl err \<Rightarrow> \<lparr>result = Inl err, requests = [], refs_after = None\<rparr>
      | Inr (repo, buildStore, w, file, units) \<Rightarrow>
          (case OuterLoop env buildStore w repo file (StartByte c) units of
             Inl err \<Rightarrow> \<lparr>result = Inl err, requests = [], refs_after = None\<rparr>
           | Inr None \<Rightarrow> \<lparr>result = Inr (Println ''{}''), requests = [], refs_after = None\<rparr>
           | Inr (Some (ref, refs)) \<Rightarrow>
               describe_ref env buildStore w repo (NoExamples c) ref refs))"

section \<open>A small repository\<close>

text \<open>
  A concrete world to run the model in. The world is the number of build steps done: the
  commit's directory exists once the repository is configured, and its artifacts can be
  read once they are made. \<open>files\<close> are the artifacts the make step writes (path and
  bytes); \<open>manifests\<close> and \<open>graphs\<close> say which bytes decode, and to what.
\<close>

definition fx_repo :: Repo where
  "fx_repo = \<lparr>RootDir = ''/r'', CommitID = ''c1'', URI = ''example.com/r''\<rparr>"

definition fx_store :: "(string \<times> string) list \<Rightarrow> nat RepositoryStore" where
  "fx_store files =
     \<lparr>CommitPath = (\<lambda>commit. commit),
      FilePath = (\<lambda>commit name. commit @ ''/'' @ name),
      Stat = (\<lambda>w p. if w = 0 then Some (NotExist p) else None),
      Walk = (\<lambda>w root. if w < 2 then [] else root # map fst files),
      Open = (\<lambda>w p. if w < 2 then Inl (NotExist p)
                      else (case map_of files p of
                              None \<Rightarrow> Inl (NotExist p)
                            | Some bytes \<Rightarrow> Inr bytes))\<rparr>"

definition fx_env ::
  "(string \<times> string) list \<Rightarrow> (string \<times> SourceUnit) list \<Rightarrow> (string \<times> Output) list \<Rightarrow> nat env"
where
  "fx_env files manifests graphs =
     \<lparr>filepath_Clean = (\<lambda>p. if take 2 p = ''./'' then drop 2 p else p),
      filepath_Dir = (\<lambda>p. rev (tl (dropWhile (\<lambda>c. c \<noteq> CHR ''/'') (rev p)))),
      filepath_Rel = (\<lambda>root p. if take (length root + 1) p = root @ ''/''
                                then Inr (drop (length root + 1) p)
                                else Inl (Failure ''Rel: cannot make the path relative'')),
      filepath_Join = (\<lambda>a b. a @ ''/'' @ b),
      OpenRepo = (\<lambda>w dir. if dir = ''/r'' then Inr fx_repo
                            else Inl (Failure ''not a repository'')),
      Chdir = (\<lambda>dir w. Inr w),
      NewRepositoryStore = (\<lambda>root w. Inr (fx_store files)),
      DataTypeSuffix_SourceUnit = ''.unit'',
      SourceUnitDataFilename = (\<lambda>kind u. Name u @ ''.'' @ kind),
      Decode_SourceUnit = (\<lambda>bytes. case map_of manifests bytes of
                                        None \<Rightarrow> Inl (Failure ''invalid JSON'')
                                      | Some u \<Rightarrow> Inr u),
      Decode_Output = (\<lambda>bytes. case map_of graphs bytes of
                                    None \<Rightarrow> Inl (Failure ''invalid JSON'')
                                  | Some g \<Rightarrow> Inr g),
      ConfigCmd_Execute = (\<lambda>opt tc w. (None, 1)),
      MakeCmd_Execute = (\<lambda>opt tc w. (None, 2)),
      Defs_Get = (\<lambda>spec doc.
                    if Spec_Path spec = ''g''
                    then (Some \<lparr>Def = \<lparr>Def_Path = ''g'', Def_File = ''o.go'',
                                         Def_Data = ''func g''\<rparr>,
                                 DocHTML = ''doc of g''\<rparr>, None)
                    else (None, Some (Failure ''not found''))),
      Defs_ListExamples = (\<lambda>spec formatted perPage. (Some [''an example''], None)),
      Encode = (\<lambda>out. None)\<rparr>"

text \<open>
  Unit \<open>A\<close> has the file \<^verbatim>\<open>a.py\<close>; unit \<open>B\<close> lists it twice (once as \<^verbatim>\<open>./a.py\<close>). The graph
  of \<open>A\<close> has two overlapping references in \<^verbatim>\<open>a.py\<close>: the first leaves its defining
  repository and unit empty, the second points into another repository. The third points
  into a unit \<open>Z\<close> whose graph does not decode, the fourth to a path that the graph of \<open>B\<close>
  does not define.
\<close>

definition fx_A :: SourceUnit where
  "fx_A = \<lparr>Name = ''A'', Type = ''py'', Files = [''a.py'']\<rparr>"

definition fx_B :: SourceUnit where
  "fx_B = \<lparr>Name = ''B'', Type = ''py'', Files = [''b.py'', ''./a.py'', ''a.py'']\<rparr>"

definition fx_ref1 :: Ref where
  "fx_ref1 = \<lparr>File = ''a.py'', Start = 10, End = 20, DefRepo = '''', DefUnit = '''',
              DefUnitType = '''', DefPath = ''f''\<rparr>"

definition fx_ref2 :: Ref where
  "fx_ref2 = \<lparr>File = ''a.py'', Start = 15, End = 30, DefRepo = ''example.com/o'',
              DefUnit = ''X'', DefUnitType = ''go'', DefPath = ''g''\<rparr>"

definition fx_ref3 :: Ref where
  "fx_ref3 = \<lparr>File = ''a.py'', Start = 40, End = 50, DefRepo = '''', DefUnit = ''Z'',
              DefUnitType = ''py'', DefPath = ''h''\<rparr>"

definition fx_ref4 :: Ref where
  "fx_ref4 = \<lparr>File = ''a.py'', Start = 60, End = 70, DefRepo = '''', DefUnit = ''B'',
              DefUnitType = ''py'', DefPath = ''k''\<rparr>"

definition fx_def :: Def where
  "fx_def = \<lparr>Def_Path = ''f'', Def_File = ''a.py'', Def_Data = ''def f''\<rparr>"

definition fx_gA :: Output where
  "fx_gA = \<lparr>Defs = [fx_def], Refs = [fx_ref1, fx_ref2, fx_ref3, fx_ref4],
            Docs = [\<lparr>Doc_Path = ''f'', Doc_Data = ''doc of f''\<rparr>]\<rparr>"

definition fx_gB :: Output where
  "fx_gB = \<lparr>Defs = [], Refs = [fx_ref2], Docs = []\<rparr>"

definition fx_files :: "(string \<times> string) list" where
  "fx_files = [(''c1/A.unit'', ''uA''), (''c1/A.graph'', ''gA''),
               (''c1/B.unit'', ''uB''), (''c1/B.graph'', ''gB''), (''c1/Z.graph'', ''{'')]"

definition fx_manifests :: "(string \<times> SourceUnit) list" where
  "fx_manifests = [(''uA'', fx_A), (''uB'', fx_B)]"

definition fx_graphs :: "(string \<times> Output) list" where
  "fx_graphs = [(''gA'', fx_gA), (''gB'', fx_gB)]"

text \<open>The same repository with a manifest, or a graph, that does not decode.\<close>

definition fx_bad_files :: "(string \<times> string) list" where
  "fx_bad_files = [(''c1/A.unit'', ''{''), (''c1/A.graph'', ''gA''),
                   (''c1/B.unit'', ''uB''), (''c1/B.graph'', ''gB'')]"

definition fx_bad_graph_files :: "(string \<times> string) list" where
  "fx_bad_graph_files = [(''c1/A.unit'', ''uA''), (''c1/A.graph'', ''{''),
                         (''c1/B.unit'', ''uB''), (''c1/B.graph'', ''gB'')]"

text \<open>The same repository with a graph of unit \<open>B\<close> that does not decode.\<close>

definition fx_bad_B_graph_files :: "(string \<times> string) list" where
  "fx_bad_B_graph_files = [(''c1/A.unit'', ''uA''), (''c1/A.graph'', ''gA''),
                           (''c1/B.unit'', ''uB''), (''c1/B.graph'', ''{'')]"

text \<open>The same world with a configure step that fails.\<close>

definition fx_failing_env :: "nat env" where
  "fx_failing_env = (fx_env fx_files fx_manifests fx_graphs)
     \<lparr>ConfigCmd_Execute := (\<lambda>opt tc w. (Some (Failure ''configure failed''), w))\<rparr>"

section \<open>Running the model\<close>

lemmas fx_defs = fx_repo_def fx_store_def fx_env_def fx_A_def fx_B_def fx_ref1_def
  fx_ref2_def fx_ref3_def fx_ref4_def fx_def_def fx_gA_def fx_gB_def fx_files_def fx_manifests_def
  fx_graphs_def fx_bad_files_def fx_bad_graph_files_def fx_bad_B_graph_files_def
  fx_failing_env_def

lemmas model_defs = APIListCmd_Execute_def APIDescribeCmd_Execute_def prepare_def
  ensureBuild_def getSourceUnitsWithFile_def unitFiles_def load_unit_def load_graph_def
  HasSuffix_def Errorf_def Let_def describe_ref_def local_def_def remote_def spec_of_def
  encode_stdout_def
  default_unit_def default_repo_def

lemma fx_unitFiles:
  "unitFiles (fx_env fx_files fx_manifests fx_graphs) (fx_store fx_files) 2 fx_repo =
     [''c1/A.unit'', ''c1/B.unit'']"
  by (simp add: unitFiles_def fx_defs HasSuffix_def Let_def)

lemma fx_load_A:
  "load_unit (fx_env fx_files fx_manifests fx_graphs) (fx_store fx_files) 2 ''c1/A.unit'' =
     Inr fx_A"
  by (simp add: load_unit_def fx_env_def fx_store_def fx_files_def fx_manifests_def)

lemma fx_load_B:
  "load_unit (fx_env fx_files fx_manifests fx_graphs) (fx_store fx_files) 2 ''c1/B.unit'' =
     Inr fx_B"
  by (simp add: load_unit_def fx_env_def fx_store_def fx_files_def fx_manifests_def)

lemma fx_manifests_load:
  "list_all2
     (\<lambda>p u. load_unit (fx_env fx_files fx_manifests fx_graphs) (fx_store fx_files) 2 p = Inr u)
     (unitFiles (fx_env fx_files fx_manifests fx_graphs) (fx_store fx_files) 2 fx_repo)
     [fx_A, fx_B]"
  by (simp add: fx_unitFiles fx_load_A fx_load_B)

lemma fx_bad_prepare:
  "prepare (fx_env fx_bad_graph_files fx_manifests fx_graphs) 0 ''/r/a.py'' =
     Inr (fx_repo, fx_store fx_bad_graph_files, 2, ''a.py'', [fx_A, fx_B])"
  by (simp add: model_defs fx_defs)

lemma fx_prepare:
  "prepare (fx_env fx_files fx_manifests fx_graphs) 0 ''/r/a.py'' =
     Inr (fx_repo, fx_store fx_files, 2, ''a.py'', [fx_A, fx_B])"
  by (simp add: model_defs fx_defs)

lemma fx_load_gA:
  "load_graph (fx_env fx_files fx_manifests fx_graphs) (fx_store fx_files) 2 fx_repo fx_A = Inr fx_gA"
  by (simp add: load_graph_def fx_env_def fx_store_def fx_files_def fx_graphs_def fx_repo_def fx_A_def)

lemma fx_load_gB:
  "load_graph (fx_env fx_files fx_manifests fx_graphs) (fx_store fx_files) 2 fx_repo fx_B = Inr fx_gB"
  by (simp add: load_graph_def fx_env_def fx_store_def fx_files_def fx_graphs_def fx_repo_def fx_B_def)

lemma fx_scan_10: "refs_loop ''a.py'' 10 (Refs fx_gA) = Some 0"
  by (simp add: fx_gA_def fx_ref1_def)

lemma fx_scan_45: "refs_loop ''a.py'' 45 (Refs fx_gA) = Some 2"
  by (simp add: fx_gA_def fx_ref1_def fx_ref2_def fx_ref3_def)

lemma fx_scan_65: "refs_loop ''a.py'' 65 (Refs fx_gA) = Some 3"
  by (simp add: fx_gA_def fx_ref1_def fx_ref2_def fx_ref3_def fx_ref4_def)

lemma fx_locator_10:
  "locator fx_repo fx_A (Refs fx_gA ! 0) =
     \<lparr>Spec_Repo = ''example.com/r'', Spec_UnitType = ''py'', Spec_Unit = ''A'',
      Spec_Path = ''f''\<rparr>"
  by (simp add: locator_def fx_repo_def fx_A_def fx_gA_def fx_ref1_def)

lemma fx_locator_45:
  "locator fx_repo fx_A (Refs fx_gA ! 2) =
     \<lparr>Spec_Repo = ''example.com/r'', Spec_UnitType = ''py'', Spec_Unit = ''Z'',
      Spec_Path = ''h''\<rparr>"
  by (simp add: locator_def fx_repo_def fx_A_def fx_gA_def fx_ref3_def)

lemma fx_locator_65:
  "locator fx_repo fx_A (Refs fx_gA ! 3) =
     \<lparr>Spec_Repo = ''example.com/r'', Spec_UnitType = ''py'', Spec_Unit = ''B'',
      Spec_Path = ''k''\<rparr>"
  by (simp add: locator_def fx_repo_def fx_A_def fx_gA_def fx_ref4_def)

lemma fx_load_target_A:
  "load_graph (fx_env fx_files fx_manifests fx_graphs) (fx_store fx_files) 2 fx_repo
     \<lparr>Name = ''A'', Type = ''py'', Files = []\<rparr> = Inr fx_gA"
  by (simp add: load_graph_def fx_env_def fx_store_def fx_files_def fx_graphs_def fx_repo_def)

lemma fx_load_target_B:
  "load_graph (fx_env fx_files fx_manifests fx_graphs) (fx_store fx_files) 2 fx_repo
     \<lparr>Name = ''B'', Type = ''py'', Files = []\<rparr> = Inr fx_gB"
  by (simp add: load_graph_def fx_env_def fx_store_def fx_files_def fx_graphs_def fx_repo_def)

lemma fx_load_target_Z:
  "load_graph (fx_env fx_files fx_manifests fx_graphs) (fx_store fx_files) 2 fx_repo
     \<lparr>Name = ''Z'', Type = ''py'', Files = []\<rparr> = Inl (Failure ''c1/Z.graph: invalid JSON'')"
  by (simp add: load_graph_def fx_env_def fx_store_def fx_files_def fx_graphs_def fx_repo_def
        Errorf_def)

lemma fx_encode: "encode_stdout (fx_env files manifests graphs) out = Inr out"
  by (simp add: encode_stdout_def fx_env_def)

lemma fx_Join: "filepath_Join (fx_env files manifests graphs) a b = a @ ''/'' @ b"
  by (simp add: fx_env_def)

lemma fx_ListExamples:
  "Defs_ListExamples (fx_env files manifests graphs) spec formatted n =
     (Some [''an example''], None)"
  by (simp add: fx_env_def)

lemma fx_Get:
  "Defs_Get (fx_env files manifests graphs) spec doc =
     (if Spec_Path spec = ''g''
      then (Some \<lparr>Def = \<lparr>Def_Path = ''g'', Def_File = ''o.go'', Def_Data = ''func g''\<rparr>,
                   DocHTML = ''doc of g''\<rparr>, None)
      else (None, Some (Failure ''not found'')))"
  by (simp add: fx_env_def)

lemma fx_repo_fields:
  "RootDir fx_repo = ''/r''" "CommitID fx_repo = ''c1''" "URI fx_repo = ''example.com/r''"
  by (simp_all add: fx_repo_def)

lemma fx_run_10:
  "APIDescribeCmd_Execute (fx_env fx_files fx_manifests fx_graphs) 0
       \<lparr>cmd_File = ''/r/a.py'', StartByte = 10, NoExamples = False\<rparr>
     = \<lparr>result = Inr (JSON_Resp
          \<lparr>resp_Def = Some \<lparr>Def = \<lparr>Def_Path = ''f'', Def_File = ''/r/a.py'',
                                    Def_Data = ''def f''\<rparr>, DocHTML = ''doc of f''\<rparr>,
           resp_Examples = Some [''an example'']\<rparr>),
        requests = [ListExamples \<lparr>Spec_Repo = ''example.com/r'', Spec_UnitType = ''py'',
                       Spec_Unit = ''A'', Spec_Path = ''f''\<rparr> True 4],
        refs_after = Some [fx_ref1\<lparr>DefRepo := ''example.com/r'', DefUnit := ''A'',
                              DefUnitType := ''py''\<rparr>, fx_ref2, fx_ref3, fx_ref4]\<rparr>"
  by (simp add: model_defs fx_defs)

lemma fx_run_20:
  "APIDescribeCmd_Execute (fx_env fx_files fx_manifests fx_graphs) 0
       \<lparr>cmd_File = ''/r/a.py'', StartByte = 20, NoExamples = False\<rparr>
     = \<lparr>result = Inr (JSON_Resp
          \<lparr>resp_Def = Some \<lparr>Def = \<lparr>Def_Path = ''f'', Def_File = ''/r/a.py'',
                                    Def_Data = ''def f''\<rparr>, DocHTML = ''doc of f''\<rparr>,
           resp_Examples = Some [''an example'']\<rparr>),
        requests = [ListExamples \<lparr>Spec_Repo = ''example.com/r'', Spec_UnitType = ''py'',
                       Spec_Unit = ''A'', Spec_Path = ''f''\<rparr> True 4],
        refs_after = Some [fx_ref1\<lparr>DefRepo := ''example.com/r'', DefUnit := ''A'',
                              DefUnitType := ''py''\<rparr>, fx_ref2, fx_ref3, fx_ref4]\<rparr>"
  by (simp add: model_defs fx_defs)

section \<open>The units of a file\<close>

lemma walk_loop_filter:
  "walk_loop suf ps acc = acc @ filter (\<lambda>p. HasSuffix p suf) ps"
  by (induction ps arbitrary: acc) auto

lemma files_loop_eq:
  "files_loop clean fn u fs units = units @ (if fn \<in> clean ` set fs then [u] else [])"
  by (induction fs) auto

lemma unitFiles_loop_ok:
  "list_all2 (\<lambda>p u. load_unit env bs w p = Inr u) ps us \<Longrightarrow>
   unitFiles_loop env bs w fn ps units =
     Inr (units @ filter (\<lambda>u. fn \<in> filepath_Clean env ` set (Files u)) us)"
proof (induction ps us arbitrary: units rule: list_all2_induct)
  case Nil
  then show ?case by simp
next
  case (Cons p ps u us)
  then show ?case by (simp add: files_loop_eq)
qed

lemma unitFiles_loop_fail:
  "list_all2 (\<lambda>p u. load_unit env bs w p = Inr u) ps us \<Longrightarrow>
   load_unit env bs w p = Inl e \<Longrightarrow>
   unitFiles_loop env bs w fn (ps @ p # qs) units = Inl e"
proof (induction ps us arbitrary: units rule: list_all2_induct)
  case Nil
  then show ?case by simp
next
  case (Cons p' ps u us)
  then show ?case by simp
qed

lemma getSourceUnitsWithFile_filter:
  assumes "list_all2 (\<lambda>p u. load_unit env bs w p = Inr u) (unitFiles env bs w repo) us"
  shows "getSourceUnitsWithFile env bs w repo file =
           Inr (filter (\<lambda>u. filepath_Clean env file \<in> filepath_Clean env ` set (Files u)) us)"
  using unitFiles_loop_ok [OF assms, of "filepath_Clean env file" "[]"]
  by (simp add: getSourceUnitsWithFile_def)

lemma count_list_filter_le: "count_list (filter P xs) x \<le> count_list xs x"
  by (induction xs) auto

text \<open>
  Claim C6. When the manifests of the commit decode to the units \<open>us\<close> (in the order of the
  walk), \<^verbatim>\<open>getSourceUnitsWithFile\<close> returns, without an error, every unit of \<open>us\<close> that has a
  member file equal to the query file once both are cleaned: all of them, in that order,
  and the empty list when there is none.
\<close>

theorem getSourceUnitsWithFile_all_matching_units:
  assumes "list_all2 (\<lambda>p u. load_unit env bs w p = Inr u) (unitFiles env bs w repo) us"
  shows "getSourceUnitsWithFile env bs w repo file =
           Inr (filter (\<lambda>u. filepath_Clean env file \<in> filepath_Clean env ` set (Files u)) us)
         \<and> ((\<forall>u \<in> set us. filepath_Clean env file \<notin> filepath_Clean env ` set (Files u))
              \<longrightarrow> getSourceUnitsWithFile env bs w repo file = Inr [])"
proof -
  have "getSourceUnitsWithFile env bs w repo file =
          Inr (filter (\<lambda>u. filepath_Clean env file \<in> filepath_Clean env ` set (Files u)) us)"
    by (rule getSourceUnitsWithFile_filter [OF assms])
  moreover have
    "(\<forall>u \<in> set us. filepath_Clean env file \<notin> filepath_Clean env ` set (Files u))
      \<longrightarrow> filter (\<lambda>u. filepath_Clean env file \<in> filepath_Clean env ` set (Files u)) us = []"
    by (simp add: filter_empty_conv)
  ultimately show ?thesis by simp
qed

theorem getSourceUnitsWithFile_all_matching_units_witness:
  "list_all2
     (\<lambda>p u. load_unit (fx_env fx_files fx_manifests fx_graphs) (fx_store fx_files) 2 p = Inr u)
     (unitFiles (fx_env fx_files fx_manifests fx_graphs) (fx_store fx_files) 2 fx_repo)
     [fx_A, fx_B]
   \<and> getSourceUnitsWithFile (fx_env fx_files fx_manifests fx_graphs) (fx_store fx_files) 2
       fx_repo ''a.py'' = Inr [fx_A, fx_B]
   \<and> getSourceUnitsWithFile (fx_env fx_files fx_manifests fx_graphs) (fx_store fx_files) 2
       fx_repo ''c.py'' = Inr []"
proof -
  note h = fx_manifests_load
  have clean: "\<And>p. filepath_Clean (fx_env fx_files fx_manifests fx_graphs) p =
      (if take 2 p = ''./'' then drop 2 p else p)"
    by (simp add: fx_env_def)
  show ?thesis
    using h getSourceUnitsWithFile_all_matching_units [OF h, of "''a.py''"]
      getSourceUnitsWithFile_all_matching_units [OF h, of "''c.py''"]
    by (simp add: clean fx_A_def fx_B_def)
qed

text \<open>
  Claim C10. A manifest adds its unit to the result at most once, however often the query
  file occurs among the unit's member files: no unit occurs more often in the result than
  among the decoded manifests \<open>us\<close>.
\<close>

theorem getSourceUnitsWithFile_unit_at_most_once:
  assumes "list_all2 (\<lambda>p u. load_unit env bs w p = Inr u) (unitFiles env bs w repo) us"
  shows "\<exists>units. getSourceUnitsWithFile env bs w repo file = Inr units
           \<and> (\<forall>u. count_list units u \<le> count_list us u)"
  using getSourceUnitsWithFile_filter [OF assms, of "file"]
  by (simp add: count_list_filter_le)

theorem getSourceUnitsWithFile_unit_at_most_once_witness:
  "list_all2
     (\<lambda>p u. load_unit (fx_env fx_files fx_manifests fx_graphs) (fx_store fx_files) 2 p = Inr u)
     (unitFiles (fx_env fx_files fx_manifests fx_graphs) (fx_store fx_files) 2 fx_repo)
     [fx_A, fx_B]
   \<and> length (filter (\<lambda>f. filepath_Clean (fx_env fx_files fx_manifests fx_graphs) f = ''a.py'')
        (Files fx_B)) = 2
   \<and> (\<exists>units. getSourceUnitsWithFile (fx_env fx_files fx_manifests fx_graphs)
                 (fx_store fx_files) 2 fx_repo ''a.py'' = Inr units
         \<and> count_list units fx_B \<le> 1)"
proof -
  note h = fx_manifests_load
  have ne: "fx_A \<noteq> fx_B" by (simp add: fx_A_def fx_B_def)
  have twice:
    "length (filter (\<lambda>f. filepath_Clean (fx_env fx_files fx_manifests fx_graphs) f = ''a.py'')
       (Files fx_B)) = 2"
    by (simp add: fx_env_def fx_B_def)
  from getSourceUnitsWithFile_unit_at_most_once [OF h, of "''a.py''"] obtain units where
    u: "getSourceUnitsWithFile (fx_env fx_files fx_manifests fx_graphs) (fx_store fx_files) 2
          fx_repo ''a.py'' = Inr units"
    and c: "\<forall>u. count_list units u \<le> count_list [fx_A, fx_B] u"
    by blast
  from c have "count_list units fx_B \<le> count_list [fx_A, fx_B] fx_B" by blast
  with ne have "count_list units fx_B \<le> 1" by simp
  with h twice u show ?thesis by blast
qed

section \<open>Artifacts that do not decode\<close>

lemma list_units_loop_fail:
  "list_all2 (\<lambda>u g. load_graph env bs w repo u = Inr g) us1 gs \<Longrightarrow>
   load_graph env bs w repo u = Inl e \<Longrightarrow>
   list_units_loop env bs w repo fn (us1 @ u # us2) refs = Inl e"
proof (induction us1 gs arbitrary: refs rule: list_all2_induct)
  case Nil
  then show ?case by simp
next
  case (Cons u' us1 g gs)
  then show ?case by simp
qed

lemma load_unit_malformed:
  "Open bs w p = Inr bytes \<Longrightarrow> Decode_SourceUnit env bytes = Inl err \<Longrightarrow>
   load_unit env bs w p = Inl (Errorf p err)"
  by (simp add: load_unit_def)

lemma load_graph_malformed:
  "Open bs w (FilePath bs (CommitID repo) (SourceUnitDataFilename env ''graph'' u)) = Inr bytes \<Longrightarrow>
   Decode_Output env bytes = Inl err \<Longrightarrow>
   load_graph env bs w repo u =
     Inl (Errorf (FilePath bs (CommitID repo) (SourceUnitDataFilename env ''graph'' u)) err)"
  by (simp add: load_graph_def Let_def)

text \<open>
  Claim C4, as the spec states it, fails: the manifest of unit \<open>A\<close> does not decode, the
  manifest of unit \<open>B\<close> does and \<open>B\<close> has the query file, and the list command returns the
  decoding error of \<open>A\<close> instead of going on with \<open>B\<close>.
\<close>

theorem malformed_manifest_not_skipped:
  "load_unit (fx_env fx_bad_files fx_manifests fx_graphs) (fx_store fx_bad_files) 2
     ''c1/B.unit'' = Inr fx_B
   \<and> ''a.py'' \<in> set (Files fx_B)
   \<and> APIListCmd_Execute (fx_env fx_bad_files fx_manifests fx_graphs) 0
       \<lparr>list_File = ''/r/a.py''\<rparr> = Inl (Failure ''c1/A.unit: invalid JSON'')"
  by (simp add: model_defs fx_defs)

text \<open>
  Claim C4, amended. In the listing operations an artifact that does not decode ends the
  whole query: when the manifests before \<open>p\<close> load and the bytes of \<open>p\<close> do not decode,
  \<^verbatim>\<open>getSourceUnitsWithFile\<close> returns the decoding error, prefixed with the path \<open>p\<close>; when the
  graphs of the units before \<open>u\<close> load and the bytes of the graph of \<open>u\<close> do not decode, the
  list command returns the decoding error, prefixed with the path of that graph. No unit
  is skipped.
\<close>

theorem malformed_artifact_aborts_listing:
  "(unitFiles env bs w repo = ps @ p # qs
      \<and> list_all2 (\<lambda>p u. load_unit env bs w p = Inr u) ps us
      \<and> Open bs w p = Inr bytes \<and> Decode_SourceUnit env bytes = Inl err
    \<longrightarrow> getSourceUnitsWithFile env bs w repo file = Inl (Errorf p err))
   \<and> (prepare env' w0 (list_File c) = Inr (repo', bs', w', file', us1 @ u # us2)
      \<and> list_all2 (\<lambda>u g. load_graph env' bs' w' repo' u = Inr g) us1 gs
      \<and> Open bs' w' (FilePath bs' (CommitID repo') (SourceUnitDataFilename env' ''graph'' u))
            = Inr bytes'
      \<and> Decode_Output env' bytes' = Inl err'
    \<longrightarrow> APIListCmd_Execute env' w0 c =
          Inl (Errorf (FilePath bs' (CommitID repo') (SourceUnitDataFilename env' ''graph'' u))
                 err'))"
proof (intro conjI impI)
  assume a: "unitFiles env bs w repo = ps @ p # qs
      \<and> list_all2 (\<lambda>p u. load_unit env bs w p = Inr u) ps us
      \<and> Open bs w p = Inr bytes \<and> Decode_SourceUnit env bytes = Inl err"
  then have "load_unit env bs w p = Inl (Errorf p err)"
    by (simp add: load_unit_malformed)
  with a have
    "unitFiles_loop env bs w (filepath_Clean env file) (ps @ p # qs) [] = Inl (Errorf p err)"
    by (blast intro: unitFiles_loop_fail)
  with a show "getSourceUnitsWithFile env bs w repo file = Inl (Errorf p err)"
    by (simp add: getSourceUnitsWithFile_def)
next
  assume b: "prepare env' w0 (list_File c) = Inr (repo', bs', w', file', us1 @ u # us2)
      \<and> list_all2 (\<lambda>u g. load_graph env' bs' w' repo' u = Inr g) us1 gs
      \<and> Open bs' w' (FilePath bs' (CommitID repo') (SourceUnitDataFilename env' ''graph'' u))
            = Inr bytes'
      \<and> Decode_Output env' bytes' = Inl err'"
  then have "load_graph env' bs' w' repo' u =
     Inl (Errorf (FilePath bs' (CommitID repo') (SourceUnitDataFilename env' ''graph'' u)) err')"
    by (simp add: load_graph_malformed)
  with b have "list_units_loop env' bs' w' repo' file' (us1 @ u # us2) [] =
     Inl (Errorf (FilePath bs' (CommitID repo') (SourceUnitDataFilename env' ''graph'' u)) err')"
    by (blast intro: list_units_loop_fail)
  with b show "APIListCmd_Execute env' w0 c =
     Inl (Errorf (FilePath bs' (CommitID repo') (SourceUnitDataFilename env' ''graph'' u)) err')"
    by (simp add: APIListCmd_Execute_def)
qed

theorem malformed_artifact_aborts_listing_witness:
  "(unitFiles (fx_env fx_bad_files fx_manifests fx_graphs) (fx_store fx_bad_files) 2 fx_repo
        = [] @ ''c1/A.unit'' # [''c1/B.unit'']
    \<and> list_all2 (\<lambda>p u. load_unit (fx_env fx_bad_files fx_manifests fx_graphs)
                          (fx_store fx_bad_files) 2 p = Inr u) [] []
    \<and> Open (fx_store fx_bad_files) 2 ''c1/A.unit'' = Inr ''{''
    \<and> Decode_SourceUnit (fx_env fx_bad_files fx_manifests fx_graphs) ''{''
        = Inl (Failure ''invalid JSON'')
    \<and> getSourceUnitsWithFile (fx_env fx_bad_files fx_manifests fx_graphs)
        (fx_store fx_bad_files) 2 fx_repo ''a.py'' = Inl (Failure ''c1/A.unit: invalid JSON''))
   \<and> (prepare (fx_env fx_bad_graph_files fx_manifests fx_graphs) 0 ''/r/a.py''
        = Inr (fx_repo, fx_store fx_bad_graph_files, 2, ''a.py'', [] @ fx_A # [fx_B])
    \<and> Open (fx_store fx_bad_graph_files) 2 ''c1/A.graph'' = Inr ''{''
    \<and> Decode_Output (fx_env fx_bad_graph_files fx_manifests fx_graphs) ''{''
        = Inl (Failure ''invalid JSON'')
    \<and> APIListCmd_Execute (fx_env fx_bad_graph_files fx_manifests fx_graphs) 0
        \<lparr>list_File = ''/r/a.py''\<rparr> = Inl (Failure ''c1/A.graph: invalid JSON''))"
proof -
  have 1: "unitFiles (fx_env fx_bad_files fx_manifests fx_graphs) (fx_store fx_bad_files) 2
             fx_repo = [] @ ''c1/A.unit'' # [''c1/B.unit'']"
    by (simp add: unitFiles_def fx_defs HasSuffix_def Let_def)
  have 2: "Open (fx_store fx_bad_files) 2 ''c1/A.unit'' = Inr ''{''"
    by (simp add: fx_store_def fx_bad_files_def)
  have 3: "Decode_SourceUnit (fx_env fx_bad_files fx_manifests fx_graphs) ''{''
             = Inl (Failure ''invalid JSON'')"
    by (simp add: fx_env_def fx_manifests_def)
  have 4: "prepare (fx_env fx_bad_graph_files fx_manifests fx_graphs) 0
             (list_File \<lparr>list_File = ''/r/a.py''\<rparr>)
           = Inr (fx_repo, fx_store fx_bad_graph_files, 2, ''a.py'', [] @ fx_A # [fx_B])"
    by (simp add: fx_bad_prepare)
  have 5: "Open (fx_store fx_bad_graph_files) 2
             (FilePath (fx_store fx_bad_graph_files) (CommitID fx_repo)
               (SourceUnitDataFilename (fx_env fx_bad_graph_files fx_manifests fx_graphs)
                  ''graph'' fx_A))
           = Inr ''{''"
    by (simp add: fx_store_def fx_env_def fx_bad_graph_files_def fx_repo_def fx_A_def)
  have 6: "Decode_Output (fx_env fx_bad_graph_files fx_manifests fx_graphs) ''{''
             = Inl (Failure ''invalid JSON'')"
    by (simp add: fx_env_def fx_graphs_def)
  have 7: "FilePath (fx_store fx_bad_graph_files) (CommitID fx_repo)
             (SourceUnitDataFilename (fx_env fx_bad_graph_files fx_manifests fx_graphs)
                ''graph'' fx_A)
           = ''c1/A.graph''"
    by (simp add: fx_store_def fx_env_def fx_repo_def fx_A_def)
  note inst = malformed_artifact_aborts_listing
      [of "fx_env fx_bad_files fx_manifests fx_graphs" "fx_store fx_bad_files" 2 fx_repo
        "[]" "''c1/A.unit''" "[''c1/B.unit'']" "[]" "''{''" "Failure ''invalid JSON''" "''a.py''"
        "fx_env fx_bad_graph_files fx_manifests fx_graphs" 0 "\<lparr>list_File = ''/r/a.py''\<rparr>"
        fx_repo "fx_store fx_bad_graph_files" 2 "''a.py''" "[]" fx_A "[fx_B]" "[]" "''{''"
        "Failure ''invalid JSON''"]
  from inst 1 2 3 have a:
    "getSourceUnitsWithFile (fx_env fx_bad_files fx_manifests fx_graphs)
       (fx_store fx_bad_files) 2 fx_repo ''a.py'' = Inl (Failure ''c1/A.unit: invalid JSON'')"
    by (simp add: Errorf_def)
  from inst 4 5 6 have b:
    "APIListCmd_Execute (fx_env fx_bad_graph_files fx_manifests fx_graphs) 0
       \<lparr>list_File = ''/r/a.py''\<rparr> = Inl (Failure ''c1/A.graph: invalid JSON'')"
    by (simp add: Errorf_def 7)
  from 1 2 3 4 5 6 a b show ?thesis by (simp add: 7)
qed

section \<open>ensureBuild\<close>

text \<open>
  Claim C7. The trace of \<^verbatim>\<open>ensureBuild\<close> has the configure step exactly when the store
  reports that the commit's directory does not exist. It has the make step in every other
  case and after a configure step that succeeded, so the make step is left out only when
  the configure step failed. The steps run in the order configure, make. When the make step
  is left out, the error and the world are those of the failed configure step; otherwise
  they are those of the make step, run in the world the configure step left (or in the
  first world, when there was no configure step).
\<close>

theorem ensureBuild_steps:
  assumes "ensureBuild env bs repo w = (err, trace, w')"
  shows "(Configure \<in> set trace \<longleftrightarrow>
            IsNotExist (Stat bs w (CommitPath bs (CommitID repo))))
       \<and> (Make \<in> set trace \<longleftrightarrow>
            \<not> (IsNotExist (Stat bs w (CommitPath bs (CommitID repo)))
               \<and> fst (ConfigCmd_Execute env \<lparr>Opt_Repo = URI repo, Opt_Subdir = ''.''\<rparr>
                         \<lparr>ExeMethods = ''program''\<rparr> w) \<noteq> None))
       \<and> (trace = [Configure] \<or> trace = [Make] \<or> trace = [Configure, Make])
       \<and> (Make \<notin> set trace \<longrightarrow>
            (err, w') = ConfigCmd_Execute env \<lparr>Opt_Repo = URI repo, Opt_Subdir = ''.''\<rparr>
                          \<lparr>ExeMethods = ''program''\<rparr> w \<and> err \<noteq> None)
       \<and> (Make \<in> set trace \<longrightarrow>
            (err, w') = MakeCmd_Execute env \<lparr>Opt_Repo = URI repo, Opt_Subdir = ''.''\<rparr>
                          \<lparr>ExeMethods = ''program''\<rparr>
                          (if Configure \<in> set trace
                           then snd (ConfigCmd_Execute env
                                   \<lparr>Opt_Repo = URI repo, Opt_Subdir = ''.''\<rparr>
                                   \<lparr>ExeMethods = ''program''\<rparr> w)
                           else w))"
  using assms
  by (auto simp: ensureBuild_def Let_def split: prod.splits option.splits if_splits)

theorem ensureBuild_steps_witness:
  "ensureBuild (fx_env fx_files fx_manifests fx_graphs) (fx_store fx_files) fx_repo 0
     = (None, [Configure, Make], 2)
   \<and> IsNotExist (Stat (fx_store fx_files) 0 (CommitPath (fx_store fx_files) (CommitID fx_repo)))
   \<and> ensureBuild (fx_env fx_files fx_manifests fx_graphs) (fx_store fx_files) fx_repo 1
     = (None, [Make], 2)
   \<and> \<not> IsNotExist (Stat (fx_store fx_files) 1 (CommitPath (fx_store fx_files) (CommitID fx_repo)))
   \<and> ensureBuild fx_failing_env (fx_store fx_files) fx_repo 0
     = (Some (Failure ''configure failed''), [Configure], 0)"
proof -
  have a: "ensureBuild (fx_env fx_files fx_manifests fx_graphs) (fx_store fx_files) fx_repo 0
     = (None, [Configure, Make], 2)"
    by (simp add: ensureBuild_def fx_env_def fx_store_def fx_repo_def)
  have b: "ensureBuild (fx_env fx_files fx_manifests fx_graphs) (fx_store fx_files) fx_repo 1
     = (None, [Make], 2)"
    by (simp add: ensureBuild_def fx_env_def fx_store_def fx_repo_def)
  have c: "ensureBuild fx_failing_env (fx_store fx_files) fx_repo 0
     = (Some (Failure ''configure failed''), [Configure], 0)"
    by (simp add: ensureBuild_def fx_failing_env_def fx_env_def fx_store_def fx_repo_def)
  from ensureBuild_steps [OF a] ensureBuild_steps [OF b] ensureBuild_steps [OF c] a b c show ?thesis by simp
qed

section \<open>The scan for the reference\<close>

lemma refs_loop_Cons:
  "refs_loop file sb (r # refs) =
     (if covers file sb r then Some 0 else map_option Suc (refs_loop file sb refs))"
  by (auto simp: covers_def)

lemma refs_loop_None_iff:
  "refs_loop file sb refs = None \<longleftrightarrow> (\<forall>r \<in> set refs. \<not> covers file sb r)"
  by (induction refs) (auto simp: covers_def)

lemma refs_loop_Some_iff:
  "refs_loop file sb refs = Some i \<longleftrightarrow>
     i < length refs \<and> covers file sb (refs ! i) \<and> (\<forall>j<i. \<not> covers file sb (refs ! j))"
proof (induction refs arbitrary: i)
  case Nil
  then show ?case by simp
next
  case (Cons r refs)
  show ?case
  proof (cases "covers file sb r")
    case True
    then have "refs_loop file sb (r # refs) = Some 0" by (simp only: refs_loop_Cons if_True)
    moreover have "(i < length (r # refs) \<and> covers file sb ((r # refs) ! i)
        \<and> (\<forall>j<i. \<not> covers file sb ((r # refs) ! j))) \<longleftrightarrow> i = 0"
      using True by (cases i) auto
    ultimately show ?thesis by auto
  next
    case False
    then have eq: "refs_loop file sb (r # refs) = map_option Suc (refs_loop file sb refs)"
      by (simp only: refs_loop_Cons if_False)
    show ?thesis
    proof (cases i)
      case 0
      with False eq show ?thesis by auto
    next
      case (Suc k)
      have "(\<forall>j<Suc k. \<not> covers file sb ((r # refs) ! j)) \<longleftrightarrow>
            (\<forall>j<k. \<not> covers file sb (refs ! j))"
        using False by (auto simp: less_Suc_eq_0_disj)
      with Suc eq Cons.IH [of k] show ?thesis by auto
    qed
  qed
qed

lemma refs_loop_in_range: "refs_loop file sb refs = Some i \<Longrightarrow> i < length refs"
  by (simp add: refs_loop_Some_iff)

lemma OuterLoop_append:
  "OuterLoop env bs w repo file sb us1 = Inr None \<Longrightarrow>
   OuterLoop env bs w repo file sb (us1 @ us) = OuterLoop env bs w repo file sb us"
  by (induction us1) (auto split: sum.splits option.splits)

lemma OuterLoop_None_iff:
  "OuterLoop env bs w repo file sb us = Inr None \<longleftrightarrow>
     (\<forall>u \<in> set us. \<exists>g. load_graph env bs w repo u = Inr g
                        \<and> refs_loop file sb (Refs g) = None)"
  by (induction us) (auto split: sum.splits option.splits)

lemma OuterLoop_hit:
  "OuterLoop env bs w repo file sb us1 = Inr None \<Longrightarrow>
   load_graph env bs w repo u = Inr g \<Longrightarrow>
   refs_loop file sb (Refs g) = Some i \<Longrightarrow>
   OuterLoop env bs w repo file sb (us1 @ u # us2) =
     Inr (Some (i, (Refs g)[i := default_unit u (Refs g ! i)]))"
  by (simp add: OuterLoop_append)

lemma OuterLoop_Some_D:
  "OuterLoop env bs w repo file sb units = Inr (Some (i, refs)) \<Longrightarrow>
   \<exists>us1 u us2 g. units = us1 @ u # us2
      \<and> OuterLoop env bs w repo file sb us1 = Inr None
      \<and> load_graph env bs w repo u = Inr g
      \<and> refs_loop file sb (Refs g) = Some i
      \<and> refs = (Refs g)[i := default_unit u (Refs g ! i)]"
proof (induction units)
  case Nil
  then show ?case by simp
next
  case (Cons u units)
  from Cons.prems obtain g where g: "load_graph env bs w repo u = Inr g"
    by (auto split: sum.splits)
  show ?case
  proof (cases "refs_loop file sb (Refs g)")
    case None
    with g Cons.prems have "OuterLoop env bs w repo file sb units = Inr (Some (i, refs))"
      by simp
    from Cons.IH [OF this] obtain us1 u' us2 g' where
      h: "units = us1 @ u' # us2" "OuterLoop env bs w repo file sb us1 = Inr None"
         "load_graph env bs w repo u' = Inr g'" "refs_loop file sb (Refs g') = Some i"
         "refs = (Refs g')[i := default_unit u' (Refs g' ! i)]"
      by blast
    from h(1) have "u # units = (u # us1) @ u' # us2" by simp
    moreover from g None h(2) have "OuterLoop env bs w repo file sb (u # us1) = Inr None"
      by simp
    ultimately show ?thesis using h(3,4,5) by blast
  next
    case (Some k)
    with g Cons.prems have "k = i" "refs = (Refs g)[i := default_unit u (Refs g ! i)]"
      by auto
    moreover have "u # units = [] @ u # units" by simp
    moreover have "OuterLoop env bs w repo file sb [] = Inr None" by simp
    ultimately show ?thesis using g Some by blast
  qed
qed

lemma OuterLoop_no_cover:
  "list_all2 (\<lambda>u g. load_graph env bs w repo u = Inr g) units gs \<Longrightarrow>
   \<forall>g \<in> set gs. \<forall>r \<in> set (Refs g). \<not> covers file sb r \<Longrightarrow>
   OuterLoop env bs w repo file sb units = Inr None"
proof (induction units gs rule: list_all2_induct)
  case Nil
  then show ?case by simp
next
  case (Cons u units g gs)
  then have "refs_loop file sb (Refs g) = None" by (simp add: refs_loop_None_iff)
  with Cons show ?case by simp
qed

lemma OuterLoop_Some_iff:
  "OuterLoop env bs w repo file sb units = Inr (Some (i, refs)) \<longleftrightarrow>
     (\<exists>us1 u us2 g. units = us1 @ u # us2
        \<and> (\<forall>u' \<in> set us1. \<exists>g'. load_graph env bs w repo u' = Inr g'
                                \<and> (\<forall>r \<in> set (Refs g'). \<not> covers file sb r))
        \<and> load_graph env bs w repo u = Inr g
        \<and> i < length (Refs g) \<and> covers file sb (Refs g ! i)
        \<and> (\<forall>j<i. \<not> covers file sb (Refs g ! j))
        \<and> refs = (Refs g)[i := default_unit u (Refs g ! i)])"
proof (intro iffI)
  assume "OuterLoop env bs w repo file sb units = Inr (Some (i, refs))"
  from OuterLoop_Some_D [OF this] obtain us1 u us2 g where
    h: "units = us1 @ u # us2" "OuterLoop env bs w repo file sb us1 = Inr None"
       "load_graph env bs w repo u = Inr g" "refs_loop file sb (Refs g) = Some i"
       "refs = (Refs g)[i := default_unit u (Refs g ! i)]"
    by blast
  from h(2) have "\<forall>u' \<in> set us1. \<exists>g'. load_graph env bs w repo u' = Inr g'
                                \<and> (\<forall>r \<in> set (Refs g'). \<not> covers file sb r)"
    by (simp add: OuterLoop_None_iff refs_loop_None_iff)
  moreover from h(4) have "i < length (Refs g) \<and> covers file sb (Refs g ! i)
        \<and> (\<forall>j<i. \<not> covers file sb (Refs g ! j))"
    by (simp add: refs_loop_Some_iff)
  ultimately show "\<exists>us1 u us2 g. units = us1 @ u # us2
        \<and> (\<forall>u' \<in> set us1. \<exists>g'. load_graph env bs w repo u' = Inr g'
                                \<and> (\<forall>r \<in> set (Refs g'). \<not> covers file sb r))
        \<and> load_graph env bs w repo u = Inr g
        \<and> i < length (Refs g) \<and> covers file sb (Refs g ! i)
        \<and> (\<forall>j<i. \<not> covers file sb (Refs g ! j))
        \<and> refs = (Refs g)[i := default_unit u (Refs g ! i)]"
    using h(1,3,5) by blast
next
  assume "\<exists>us1 u us2 g. units = us1 @ u # us2
        \<and> (\<forall>u' \<in> set us1. \<exists>g'. load_graph env bs w repo u' = Inr g'
                                \<and> (\<forall>r \<in> set (Refs g'). \<not> covers file sb r))
        \<and> load_graph env bs w repo u = Inr g
        \<and> i < length (Refs g) \<and> covers file sb (Refs g ! i)
        \<and> (\<forall>j<i. \<not> covers file sb (Refs g ! j))
        \<and> refs = (Refs g)[i := default_unit u (Refs g ! i)]"
  then obtain us1 u us2 g where
    h: "units = us1 @ u # us2"
       "\<forall>u' \<in> set us1. \<exists>g'. load_graph env bs w repo u' = Inr g'
                                \<and> (\<forall>r \<in> set (Refs g'). \<not> covers file sb r)"
       "load_graph env bs w repo u = Inr g"
       "i < length (Refs g) \<and> covers file sb (Refs g ! i)
        \<and> (\<forall>j<i. \<not> covers file sb (Refs g ! j))"
       "refs = (Refs g)[i := default_unit u (Refs g ! i)]"
    by blast
  from h(2) have "OuterLoop env bs w repo file sb us1 = Inr None"
    by (simp add: OuterLoop_None_iff refs_loop_None_iff)
  moreover from h(4) have "refs_loop file sb (Refs g) = Some i"
    by (simp add: refs_loop_Some_iff)
  ultimately show "OuterLoop env bs w repo file sb units = Inr (Some (i, refs))"
    using h(1,3,5) by (simp add: OuterLoop_hit)
qed

lemma prepare_file:
  "prepare env w0 File0 = Inr (repo, bs, w, file, units) \<Longrightarrow>
   filepath_Rel env (RootDir repo) (filepath_Clean env File0) = Inr file"
  by (auto simp: prepare_def Let_def split: sum.splits prod.splits option.splits)

lemma refs_after_describe_ref:
  "refs_after (describe_ref env bs w repo noExamples i refs0) =
     Some (refs0[i := default_repo repo (refs0 ! i)])"
  by (simp add: describe_ref_def Let_def split: sum.split prod.split)

lemma Execute_scan:
  "prepare env w0 (cmd_File c) = Inr (repo, bs, w, file, units) \<Longrightarrow>
   APIDescribeCmd_Execute env w0 c =
     (case OuterLoop env bs w repo file (StartByte c) units of
        Inl err \<Rightarrow> \<lparr>result = Inl err, requests = [], refs_after = None\<rparr>
      | Inr None \<Rightarrow> \<lparr>result = Inr (Println ''{}''), requests = [], refs_after = None\<rparr>
      | Inr (Some (i, refs)) \<Rightarrow> describe_ref env bs w repo (NoExamples c) i refs)"
  by (simp add: APIDescribeCmd_Execute_def)

text \<open>
  Claim C1. Let the common opening of the describe command succeed. The file it scans for
  is then the query file, cleaned and made relative to the root of the repository. The
  command finds a reference exactly when the units of the file split into \<open>us1\<close>, \<open>u\<close> and
  \<open>us2\<close> such that every graph of \<open>us1\<close> loads and has no reference that covers the offset
  \<^verbatim>\<open>StartByte\<close> in the file, the graph \<open>g\<close> of \<open>u\<close> loads, its reference at a position
  \<open>i\<close> covers the offset in the file (\<open>Start\<close> and \<open>End\<close> both included), and none before it
  does. For every such split the run of the command is the run on that reference, the
  first one that covers in the order of the units and of the references of a graph, with
  the defaults of the unit \<open>u\<close> written to it; the references of \<open>g\<close> are left with the
  defaults written to that one. Nothing is asked of \<open>us2\<close> or of the references after
  \<open>i\<close>: the scan stops at the first match, whatever its span.
\<close>

theorem describe_first_covering_ref:
  assumes "prepare env w0 (cmd_File c) = Inr (repo, bs, w, file, units)"
  shows "filepath_Rel env (RootDir repo) (filepath_Clean env (cmd_File c)) = Inr file
     \<and> (refs_after (APIDescribeCmd_Execute env w0 c) \<noteq> None \<longleftrightarrow>
          (\<exists>us1 u us2 g i. units = us1 @ u # us2
             \<and> (\<forall>u' \<in> set us1. \<exists>g'. load_graph env bs w repo u' = Inr g'
                   \<and> (\<forall>r \<in> set (Refs g'). \<not> covers file (StartByte c) r))
             \<and> load_graph env bs w repo u = Inr g
             \<and> i < length (Refs g) \<and> covers file (StartByte c) (Refs g ! i)
             \<and> (\<forall>j<i. \<not> covers file (StartByte c) (Refs g ! j))))
     \<and> (\<forall>us1 u us2 g i. units = us1 @ u # us2
             \<and> (\<forall>u' \<in> set us1. \<exists>g'. load_graph env bs w repo u' = Inr g'
                   \<and> (\<forall>r \<in> set (Refs g'). \<not> covers file (StartByte c) r))
             \<and> load_graph env bs w repo u = Inr g
             \<and> i < length (Refs g) \<and> covers file (StartByte c) (Refs g ! i)
             \<and> (\<forall>j<i. \<not> covers file (StartByte c) (Refs g ! j))
          \<longrightarrow> APIDescribeCmd_Execute env w0 c =
                describe_ref env bs w repo (NoExamples c) i
                  ((Refs g)[i := default_unit u (Refs g ! i)])
              \<and> refs_after (APIDescribeCmd_Execute env w0 c) =
                  Some ((Refs g)[i := default_repo repo (default_unit u (Refs g ! i))]))"
proof (intro conjI allI impI)
  show "filepath_Rel env (RootDir repo) (filepath_Clean env (cmd_File c)) = Inr file"
    using assms by (rule prepare_file)
next
  let ?match = "\<exists>us1 u us2 g i. units = us1 @ u # us2
             \<and> (\<forall>u' \<in> set us1. \<exists>g'. load_graph env bs w repo u' = Inr g'
                   \<and> (\<forall>r \<in> set (Refs g'). \<not> covers file (StartByte c) r))
             \<and> load_graph env bs w repo u = Inr g
             \<and> i < length (Refs g) \<and> covers file (StartByte c) (Refs g ! i)
             \<and> (\<forall>j<i. \<not> covers file (StartByte c) (Refs g ! j))"
  have "refs_after (APIDescribeCmd_Execute env w0 c) \<noteq> None \<longleftrightarrow>
        (\<exists>i refs. OuterLoop env bs w repo file (StartByte c) units = Inr (Some (i, refs)))"
    unfolding Execute_scan [OF assms]
    by (auto simp: refs_after_describe_ref split: sum.split option.split)
  also have "\<dots> \<longleftrightarrow> ?match"
    unfolding OuterLoop_Some_iff by blast
  finally show "refs_after (APIDescribeCmd_Execute env w0 c) \<noteq> None \<longleftrightarrow> ?match" .
next
  fix us1 u us2 g i
  assume m: "units = us1 @ u # us2
             \<and> (\<forall>u' \<in> set us1. \<exists>g'. load_graph env bs w repo u' = Inr g'
                   \<and> (\<forall>r \<in> set (Refs g'). \<not> covers file (StartByte c) r))
             \<and> load_graph env bs w repo u = Inr g
             \<and> i < length (Refs g) \<and> covers file (StartByte c) (Refs g ! i)
             \<and> (\<forall>j<i. \<not> covers file (StartByte c) (Refs g ! j))"
  then have scan: "OuterLoop env bs w repo file (StartByte c) units =
      Inr (Some (i, (Refs g)[i := default_unit u (Refs g ! i)]))"
    unfolding OuterLoop_Some_iff by blast
  show run: "APIDescribeCmd_Execute env w0 c =
      describe_ref env bs w repo (NoExamples c) i ((Refs g)[i := default_unit u (Refs g ! i)])"
    unfolding Execute_scan [OF assms] scan by simp
  from m have "i < length (Refs g)" by simp
  then show "refs_after (APIDescribeCmd_Execute env w0 c) =
      Some ((Refs g)[i := default_repo repo (default_unit u (Refs g ! i))])"
    unfolding run by (simp add: refs_after_describe_ref)
qed

theorem describe_first_covering_ref_witness:
  "prepare (fx_env fx_files fx_manifests fx_graphs) 0 ''/r/a.py''
       = Inr (fx_repo, fx_store fx_files, 2, ''a.py'', [] @ fx_A # [fx_B])
   \<and> filepath_Rel (fx_env fx_files fx_manifests fx_graphs) ''/r''
         (filepath_Clean (fx_env fx_files fx_manifests fx_graphs) ''/r/a.py'') = Inr ''a.py''
   \<and> load_graph (fx_env fx_files fx_manifests fx_graphs) (fx_store fx_files) 2 fx_repo fx_A
       = Inr fx_gA
   \<and> Refs fx_gA ! 0 = fx_ref1 \<and> Refs fx_gA ! 1 = fx_ref2
   \<and> covers ''a.py'' 20 fx_ref1 \<and> covers ''a.py'' 20 fx_ref2
   \<and> \<not> covers ''a.py'' 21 fx_ref1 \<and> \<not> covers ''a.py'' 9 fx_ref1 \<and> covers ''a.py'' 10 fx_ref1
   \<and> refs_after (APIDescribeCmd_Execute (fx_env fx_files fx_manifests fx_graphs) 0
         \<lparr>cmd_File = ''/r/a.py'', StartByte = 20, NoExamples = False\<rparr>) \<noteq> None
   \<and> APIDescribeCmd_Execute (fx_env fx_files fx_manifests fx_graphs) 0
         \<lparr>cmd_File = ''/r/a.py'', StartByte = 20, NoExamples = False\<rparr>
       = describe_ref (fx_env fx_files fx_manifests fx_graphs) (fx_store fx_files) 2 fx_repo
           False 0 ((Refs fx_gA)[0 := default_unit fx_A (Refs fx_gA ! 0)])
   \<and> refs_after (APIDescribeCmd_Execute (fx_env fx_files fx_manifests fx_graphs) 0
         \<lparr>cmd_File = ''/r/a.py'', StartByte = 20, NoExamples = False\<rparr>)
       = Some [fx_ref1\<lparr>DefUnit := ''A'', DefUnitType := ''py'', DefRepo := ''example.com/r''\<rparr>,
               fx_ref2, fx_ref3, fx_ref4]
   \<and> requests (APIDescribeCmd_Execute (fx_env fx_files fx_manifests fx_graphs) 0
         \<lparr>cmd_File = ''/r/a.py'', StartByte = 20, NoExamples = False\<rparr>)
       = [ListExamples \<lparr>Spec_Repo = ''example.com/r'', Spec_UnitType = ''py'',
                        Spec_Unit = ''A'', Spec_Path = DefPath fx_ref1\<rparr> True 4]"
proof -
  let ?env = "fx_env fx_files fx_manifests fx_graphs"
  let ?c = "\<lparr>cmd_File = ''/r/a.py'', StartByte = 20, NoExamples = False\<rparr>"
  have cov: "covers ''a.py'' 20 fx_ref1" "covers ''a.py'' 20 fx_ref2"
    "\<not> covers ''a.py'' 21 fx_ref1" "\<not> covers ''a.py'' 9 fx_ref1" "covers ''a.py'' 10 fx_ref1"
    by (simp_all add: covers_def fx_ref1_def fx_ref2_def)
  have nth: "Refs fx_gA ! 0 = fx_ref1" "Refs fx_gA ! 1 = fx_ref2"
    by (simp_all add: fx_gA_def)
  have p: "prepare ?env 0 (cmd_File ?c)
       = Inr (fx_repo, fx_store fx_files, 2, ''a.py'', [fx_A, fx_B])"
    by (simp add: fx_prepare)
  have m: "[fx_A, fx_B] = [] @ fx_A # [fx_B]
      \<and> (\<forall>u' \<in> set []. \<exists>g'. load_graph ?env (fx_store fx_files) 2 fx_repo u' = Inr g'
            \<and> (\<forall>r \<in> set (Refs g'). \<not> covers ''a.py'' (StartByte ?c) r))
      \<and> load_graph ?env (fx_store fx_files) 2 fx_repo fx_A = Inr fx_gA
      \<and> 0 < length (Refs fx_gA) \<and> covers ''a.py'' (StartByte ?c) (Refs fx_gA ! 0)
      \<and> (\<forall>j<0. \<not> covers ''a.py'' (StartByte ?c) (Refs fx_gA ! j))"
    using cov(1) by (simp add: fx_load_gA nth) (simp add: fx_gA_def)
  note inst = describe_first_covering_ref [OF p]
  from inst have a: "filepath_Rel ?env ''/r'' (filepath_Clean ?env ''/r/a.py'') = Inr ''a.py''"
    by (simp add: fx_repo_fields)
  from inst m have b: "refs_after (APIDescribeCmd_Execute ?env 0 ?c) \<noteq> None"
    by blast
  from inst m have d: "APIDescribeCmd_Execute ?env 0 ?c =
        describe_ref ?env (fx_store fx_files) 2 fx_repo (NoExamples ?c) 0
          ((Refs fx_gA)[0 := default_unit fx_A (Refs fx_gA ! 0)])
      \<and> refs_after (APIDescribeCmd_Execute ?env 0 ?c) =
          Some ((Refs fx_gA)[0 := default_repo fx_repo (default_unit fx_A (Refs fx_gA ! 0))])"
    by blast
  have upd: "(Refs fx_gA)[0 := default_repo fx_repo (default_unit fx_A (Refs fx_gA ! 0))] =
      [fx_ref1\<lparr>DefUnit := ''A'', DefUnitType := ''py'', DefRepo := ''example.com/r''\<rparr>,
       fx_ref2, fx_ref3, fx_ref4]"
    by (simp add: fx_gA_def fx_ref1_def fx_A_def fx_repo_def default_repo_def default_unit_def)
  from d [THEN conjunct1] have d1: "APIDescribeCmd_Execute ?env 0 ?c =
        describe_ref ?env (fx_store fx_files) 2 fx_repo False 0
          ((Refs fx_gA)[0 := default_unit fx_A (Refs fx_gA ! 0)])"
    by simp
  from d [THEN conjunct2] have d2: "refs_after (APIDescribeCmd_Execute ?env 0 ?c) =
      Some [fx_ref1\<lparr>DefUnit := ''A'', DefUnitType := ''py'', DefRepo := ''example.com/r''\<rparr>,
            fx_ref2, fx_ref3, fx_ref4]"
    by (simp only: upd)
  have rq: "requests (APIDescribeCmd_Execute ?env 0 ?c)
       = [ListExamples \<lparr>Spec_Repo = ''example.com/r'', Spec_UnitType = ''py'',
                        Spec_Unit = ''A'', Spec_Path = DefPath fx_ref1\<rparr> True 4]"
    by (simp add: fx_run_20) (simp add: fx_ref1_def)
  have p0: "prepare ?env 0 ''/r/a.py''
       = Inr (fx_repo, fx_store fx_files, 2, ''a.py'', [] @ fx_A # [fx_B])"
    by (simp add: fx_prepare)
  show ?thesis
    by (intro conjI) (rule a b d1 d2 rq cov nth p0 fx_load_gA)+
qed

lemma OuterLoop_abort:
  "OuterLoop env bs w repo file sb us1 = Inr None \<Longrightarrow>
   load_graph env bs w repo u = Inl e \<Longrightarrow>
   OuterLoop env bs w repo file sb (us1 @ u # us2) = Inl e"
  by (simp add: OuterLoop_append)

text \<open>
  Claim C5, as the spec states it, fails: no reference of the graph of unit \<open>A\<close> covers
  offset 35 of the file, the graph of unit \<open>B\<close> does not decode, and the describe command
  returns the decoding error instead of the empty result.
\<close>

theorem describe_scan_graph_failure_is_error:
  "prepare (fx_env fx_bad_B_graph_files fx_manifests fx_graphs) 0 ''/r/a.py''
       = Inr (fx_repo, fx_store fx_bad_B_graph_files, 2, ''a.py'', [fx_A, fx_B])
   \<and> load_graph (fx_env fx_bad_B_graph_files fx_manifests fx_graphs)
        (fx_store fx_bad_B_graph_files) 2 fx_repo fx_A = Inr fx_gA
   \<and> list_all (\<lambda>r. \<not> covers ''a.py'' 35 r) (Refs fx_gA)
   \<and> load_graph (fx_env fx_bad_B_graph_files fx_manifests fx_graphs)
        (fx_store fx_bad_B_graph_files) 2 fx_repo fx_B
       = Inl (Failure ''c1/B.graph: invalid JSON'')
   \<and> APIDescribeCmd_Execute (fx_env fx_bad_B_graph_files fx_manifests fx_graphs) 0
        \<lparr>cmd_File = ''/r/a.py'', StartByte = 35, NoExamples = False\<rparr>
       = \<lparr>result = Inl (Failure ''c1/B.graph: invalid JSON''), requests = [],
          refs_after = None\<rparr>"
  by (simp add: model_defs fx_defs fx_bad_B_graph_files_def covers_def)

text \<open>
  Claim C5, amended. Let the common opening of the describe command succeed. When every
  graph of the units of the file loads and no reference of these graphs covers the offset
  in the file, the command prints the empty object \<^verbatim>\<open>{}\<close>, returns no error and sends no
  request to the remote client. When the graphs of the units before \<open>u\<close> load and have no
  reference that covers the offset, and the graph of \<open>u\<close> does not load, the command
  returns the error of that load and prints nothing.
\<close>

theorem describe_no_covering_ref:
  "(prepare env w0 (cmd_File c) = Inr (repo, bs, w, file, units)
      \<and> list_all2 (\<lambda>u g. load_graph env bs w repo u = Inr g) units gs
      \<and> (\<forall>g \<in> set gs. \<forall>r \<in> set (Refs g). \<not> covers file (StartByte c) r)
    \<longrightarrow> APIDescribeCmd_Execute env w0 c =
          \<lparr>result = Inr (Println ''{}''), requests = [], refs_after = None\<rparr>)
   \<and> (prepare env' w0' (cmd_File c') = Inr (repo', bs', w', file', us1 @ u # us2)
      \<and> list_all2 (\<lambda>u g. load_graph env' bs' w' repo' u = Inr g) us1 gs1
      \<and> (\<forall>g \<in> set gs1. \<forall>r \<in> set (Refs g). \<not> covers file' (StartByte c') r)
      \<and> load_graph env' bs' w' repo' u = Inl e
    \<longrightarrow> APIDescribeCmd_Execute env' w0' c' =
          \<lparr>result = Inl e, requests = [], refs_after = None\<rparr>)"
proof (intro conjI impI)
  assume a: "prepare env w0 (cmd_File c) = Inr (repo, bs, w, file, units)
      \<and> list_all2 (\<lambda>u g. load_graph env bs w repo u = Inr g) units gs
      \<and> (\<forall>g \<in> set gs. \<forall>r \<in> set (Refs g). \<not> covers file (StartByte c) r)"
  then have "OuterLoop env bs w repo file (StartByte c) units = Inr None"
    by (blast intro: OuterLoop_no_cover)
  with a show "APIDescribeCmd_Execute env w0 c =
          \<lparr>result = Inr (Println ''{}''), requests = [], refs_after = None\<rparr>"
    by (simp add: APIDescribeCmd_Execute_def)
next
  assume b: "prepare env' w0' (cmd_File c') = Inr (repo', bs', w', file', us1 @ u # us2)
      \<and> list_all2 (\<lambda>u g. load_graph env' bs' w' repo' u = Inr g) us1 gs1
      \<and> (\<forall>g \<in> set gs1. \<forall>r \<in> set (Refs g). \<not> covers file' (StartByte c') r)
      \<and> load_graph env' bs' w' repo' u = Inl e"
  then have "OuterLoop env' bs' w' repo' file' (StartByte c') us1 = Inr None"
    by (blast intro: OuterLoop_no_cover)
  with b have "OuterLoop env' bs' w' repo' file' (StartByte c') (us1 @ u # us2) = Inl e"
    by (blast intro: OuterLoop_abort)
  with b show "APIDescribeCmd_Execute env' w0' c' =
          \<lparr>result = Inl e, requests = [], refs_after = None\<rparr>"
    by (simp add: APIDescribeCmd_Execute_def)
qed

theorem describe_no_covering_ref_witness:
  "(prepare (fx_env fx_files fx_manifests fx_graphs) 0 ''/r/a.py''
       = Inr (fx_repo, fx_store fx_files, 2, ''a.py'', [fx_A, fx_B])
    \<and> list_all2 (\<lambda>u g. load_graph (fx_env fx_files fx_manifests fx_graphs) (fx_store fx_files)
                          2 fx_repo u = Inr g) [fx_A, fx_B] [fx_gA, fx_gB]
    \<and> list_all (\<lambda>g. list_all (\<lambda>r. \<not> covers ''a.py'' 35 r) (Refs g)) [fx_gA, fx_gB]
    \<and> APIDescribeCmd_Execute (fx_env fx_files fx_manifests fx_graphs) 0
        \<lparr>cmd_File = ''/r/a.py'', StartByte = 35, NoExamples = False\<rparr>
       = \<lparr>result = Inr (Println ''{}''), requests = [], refs_after = None\<rparr>)
   \<and> (prepare (fx_env fx_bad_B_graph_files fx_manifests fx_graphs) 0 ''/r/a.py''
       = Inr (fx_repo, fx_store fx_bad_B_graph_files, 2, ''a.py'', [fx_A] @ fx_B # [])
    \<and> list_all2 (\<lambda>u g. load_graph (fx_env fx_bad_B_graph_files fx_manifests fx_graphs)
                          (fx_store fx_bad_B_graph_files) 2 fx_repo u = Inr g) [fx_A] [fx_gA]
    \<and> list_all (\<lambda>g. list_all (\<lambda>r. \<not> covers ''a.py'' 35 r) (Refs g)) [fx_gA]
    \<and> load_graph (fx_env fx_bad_B_graph_files fx_manifests fx_graphs)
        (fx_store fx_bad_B_graph_files) 2 fx_repo fx_B
       = Inl (Failure ''c1/B.graph: invalid JSON'')
    \<and> APIDescribeCmd_Execute (fx_env fx_bad_B_graph_files fx_manifests fx_graphs) 0
        \<lparr>cmd_File = ''/r/a.py'', StartByte = 35, NoExamples = False\<rparr>
       = \<lparr>result = Inl (Failure ''c1/B.graph: invalid JSON''), requests = [],
          refs_after = None\<rparr>)"
proof -
  let ?env = "fx_env fx_files fx_manifests fx_graphs"
  let ?bad = "fx_env fx_bad_B_graph_files fx_manifests fx_graphs"
  let ?c = "\<lparr>cmd_File = ''/r/a.py'', StartByte = 35, NoExamples = False\<rparr>"
  have p: "prepare ?env 0 (cmd_File ?c)
       = Inr (fx_repo, fx_store fx_files, 2, ''a.py'', [fx_A, fx_B])"
    by (simp add: fx_prepare)
  have l: "list_all2 (\<lambda>u g. load_graph ?env (fx_store fx_files) 2 fx_repo u = Inr g)
      [fx_A, fx_B] [fx_gA, fx_gB]"
    by (simp add: fx_load_gA fx_load_gB)
  have n: "\<forall>g \<in> set [fx_gA, fx_gB]. \<forall>r \<in> set (Refs g). \<not> covers ''a.py'' (StartByte ?c) r"
    by (simp add: fx_gA_def fx_gB_def covers_def fx_ref1_def fx_ref2_def fx_ref3_def fx_ref4_def)
  have p': "prepare ?bad 0 (cmd_File ?c)
       = Inr (fx_repo, fx_store fx_bad_B_graph_files, 2, ''a.py'', [fx_A] @ fx_B # [])"
    by (simp add: model_defs fx_defs fx_bad_B_graph_files_def)
  have lA: "load_graph ?bad (fx_store fx_bad_B_graph_files) 2 fx_repo fx_A = Inr fx_gA"
    by (simp add: load_graph_def fx_env_def fx_store_def fx_bad_B_graph_files_def fx_graphs_def
          fx_repo_def fx_A_def)
  have lB: "load_graph ?bad (fx_store fx_bad_B_graph_files) 2 fx_repo fx_B
       = Inl (Failure ''c1/B.graph: invalid JSON'')"
    by (simp add: load_graph_def fx_env_def fx_store_def fx_bad_B_graph_files_def fx_graphs_def
          fx_repo_def fx_B_def Errorf_def)
  have l': "list_all2 (\<lambda>u g. load_graph ?bad (fx_store fx_bad_B_graph_files) 2 fx_repo u = Inr g)
      [fx_A] [fx_gA]"
    by (simp add: lA)
  have n': "\<forall>g \<in> set [fx_gA]. \<forall>r \<in> set (Refs g). \<not> covers ''a.py'' (StartByte ?c) r"
    using n by simp
  note inst = describe_no_covering_ref [of ?env 0 ?c fx_repo "fx_store fx_files" 2 "''a.py''" "[fx_A, fx_B]"
      "[fx_gA, fx_gB]" ?bad 0 ?c fx_repo "fx_store fx_bad_B_graph_files" 2 "''a.py''" "[fx_A]"
      fx_B "[]" "[fx_gA]" "Failure ''c1/B.graph: invalid JSON''"]
  from inst p l n have a: "APIDescribeCmd_Execute ?env 0 ?c =
      \<lparr>result = Inr (Println ''{}''), requests = [], refs_after = None\<rparr>"
    by blast
  from inst p' l' n' lB have b: "APIDescribeCmd_Execute ?bad 0 ?c =
      \<lparr>result = Inl (Failure ''c1/B.graph: invalid JSON''), requests = [], refs_after = None\<rparr>"
    by blast
  from n have nn: "list_all (\<lambda>g. list_all (\<lambda>r. \<not> covers ''a.py'' 35 r) (Refs g)) [fx_gA, fx_gB]"
    by (simp add: list_all_iff)
  from p p' have pp: "prepare ?env 0 ''/r/a.py''
       = Inr (fx_repo, fx_store fx_files, 2, ''a.py'', [fx_A, fx_B])"
    "prepare ?bad 0 ''/r/a.py''
       = Inr (fx_repo, fx_store fx_bad_B_graph_files, 2, ''a.py'', [fx_A] @ fx_B # [])"
    by simp_all
  from a b l l' nn lB pp show ?thesis by simp
qed

section \<open>Resolving the reference\<close>

lemma spec_of_defaults: "spec_of (default_repo repo (default_unit u r)) = locator repo u r"
  by (simp add: spec_of_def default_repo_def default_unit_def locator_def Let_def)

lemma defaults_as_update:
  "default_repo repo (default_unit u r) =
     r\<lparr>DefUnit := Spec_Unit (locator repo u r), DefUnitType := Spec_UnitType (locator repo u r),
       DefRepo := Spec_Repo (locator repo u r)\<rparr>"
  by (simp add: default_repo_def default_unit_def locator_def Let_def)

lemma locator_fields:
  "DefUnit (default_repo repo (default_unit u r)) = Spec_Unit (locator repo u r)"
  "DefUnitType (default_repo repo (default_unit u r)) = Spec_UnitType (locator repo u r)"
  "DefRepo (default_repo repo (default_unit u r)) = Spec_Repo (locator repo u r)"
  "DefPath (default_repo repo (default_unit u r)) = Spec_Path (locator repo u r)"
  by (simp_all add: default_repo_def default_unit_def locator_def Let_def)

lemma defs_loop_find: "defs_loop path ds = find (\<lambda>d. Def_Path d = path) ds"
  by (induction ds) auto

lemma docs_loop_eq:
  "docs_loop path docs d =
     d\<lparr>DocHTML := (case filter (\<lambda>doc. Doc_Path doc = path) docs of
                     [] \<Rightarrow> DocHTML d
                   | ds \<Rightarrow> Doc_Data (last ds))\<rparr>"
proof (induction docs arbitrary: d)
  case Nil
  then show ?case by simp
next
  case (Cons doc docs)
  then show ?case by (simp split: list.splits)
qed

lemma remote_eq:
  "remote env noEx spec resp0 =
     (\<lparr>resp_Def = (if resp_Def resp0 = None then fst (Defs_Get env spec True)
                    else resp_Def resp0),
       resp_Examples = (if noEx then resp_Examples resp0
                        else fst (Defs_ListExamples env spec True 4))\<rparr>,
      (if resp_Def resp0 = None then [Get spec True] else [])
      @ (if noEx then [] else [ListExamples spec True 4]))"
  by (simp add: remote_def Let_def)

lemma local_def_eq:
  "local_def env bs w repo r =
     (case load_graph env bs w repo \<lparr>Name = DefUnit r, Type = DefUnitType r, Files = []\<rparr> of
        Inl err \<Rightarrow> Inl err
      | Inr g \<Rightarrow>
          Inr (case find (\<lambda>d. Def_Path d = DefPath r) (Defs g) of
                 None \<Rightarrow> None
               | Some d \<Rightarrow>
                   Some \<lparr>Def = d\<lparr>Def_File := filepath_Join env (RootDir repo) (Def_File d)\<rparr>,
                         DocHTML = (case filter (\<lambda>doc. Doc_Path doc = DefPath r) (Docs g) of
                                      [] \<Rightarrow> ''''
                                    | ds \<Rightarrow> Doc_Data (last ds))\<rparr>))"
  by (simp add: local_def_def defs_loop_find docs_loop_eq Let_def
        split: sum.split option.split list.split)

text \<open>What the command does once the scan has found the reference.\<close>

lemma Execute_hit:
  assumes "prepare env w0 (cmd_File c) = Inr (repo, bs, w, file, us1 @ u # us2)"
    and "OuterLoop env bs w repo file (StartByte c) us1 = Inr None"
    and "load_graph env bs w repo u = Inr g"
    and "refs_loop file (StartByte c) (Refs g) = Some i"
  shows "APIDescribeCmd_Execute env w0 c =
           (case (if Spec_Repo (locator repo u (Refs g ! i)) = URI repo
                  then local_def env bs w repo (default_repo repo (default_unit u (Refs g ! i)))
                  else Inr None) of
              Inl err \<Rightarrow>
                \<lparr>result = Inl err, requests = [],
                 refs_after = Some ((Refs g)
                   [i := default_repo repo (default_unit u (Refs g ! i))])\<rparr>
            | Inr d \<Rightarrow>
                (case remote env (NoExamples c) (locator repo u (Refs g ! i))
                        \<lparr>resp_Def = d, resp_Examples = None\<rparr> of
                   (resp, sent) \<Rightarrow>
                     \<lparr>result = encode_stdout env (JSON_Resp resp), requests = sent,
                      refs_after = Some ((Refs g)
                        [i := default_repo repo (default_unit u (Refs g ! i))])\<rparr>))"
proof -
  have len: "i < length (Refs g)" using assms(4) by (rule refs_loop_in_range)
  have scan: "OuterLoop env bs w repo file (StartByte c) (us1 @ u # us2) =
      Inr (Some (i, (Refs g)[i := default_unit u (Refs g ! i)]))"
    using assms(2,3,4) by (rule OuterLoop_hit)
  have repo_eq: "DefRepo (default_repo repo (default_unit u (Refs g ! i))) =
      Spec_Repo (locator repo u (Refs g ! i))"
    by (simp add: default_repo_def default_unit_def locator_def Let_def)
  show ?thesis
    using assms(1) scan len
    by (simp add: APIDescribeCmd_Execute_def describe_ref_def Let_def spec_of_defaults repo_eq
          split: sum.split prod.split)
qed

text \<open>
  Claim C3. Let the scan find the reference at position \<open>i\<close> of the graph \<open>g\<close> of the unit
  \<open>u\<close>, and let \<open>L\<close> be the locator of that reference with the defaults of the spec: an
  empty defining unit or unit type is the name or type of \<open>u\<close>, the unit being scanned, and
  an empty defining repository is the identifier of the current repository. Then the
  locator the command builds from the record of the reference, as the command leaves it,
  is \<open>L\<close>; every request the command sends to the remote client carries \<open>L\<close>; and a run
  that returns no error and does not suppress the examples has sent the request for the
  examples of \<open>L\<close>.
\<close>

theorem describe_locator_defaults:
  assumes "prepare env w0 (cmd_File c) = Inr (repo, bs, w, file, us1 @ u # us2)"
    and "OuterLoop env bs w repo file (StartByte c) us1 = Inr None"
    and "load_graph env bs w repo u = Inr g"
    and "refs_loop file (StartByte c) (Refs g) = Some i"
    and "L = locator repo u (Refs g ! i)"
  shows "map_option (\<lambda>refs. spec_of (refs ! i)) (refs_after (APIDescribeCmd_Execute env w0 c))
           = Some L
       \<and> (\<forall>rq \<in> set (requests (APIDescribeCmd_Execute env w0 c)).
            rq = Get L True \<or> rq = ListExamples L True 4)
       \<and> ((\<exists>out. result (APIDescribeCmd_Execute env w0 c) = Inr out) \<and> \<not> NoExamples c
            \<longrightarrow> ListExamples L True 4 \<in> set (requests (APIDescribeCmd_Execute env w0 c)))"
proof -
  have len: "i < length (Refs g)" using assms(4) by (rule refs_loop_in_range)
  show ?thesis
    unfolding Execute_hit [OF assms(1-4)]
    using len
    by (auto simp: assms(5) remote_eq spec_of_defaults split: sum.split)
qed

theorem describe_locator_defaults_witness:
  "prepare (fx_env fx_files fx_manifests fx_graphs) 0 ''/r/a.py''
       = Inr (fx_repo, fx_store fx_files, 2, ''a.py'', [] @ fx_A # [fx_B])
   \<and> load_graph (fx_env fx_files fx_manifests fx_graphs) (fx_store fx_files) 2 fx_repo fx_A
       = Inr fx_gA
   \<and> refs_loop ''a.py'' 10 (Refs fx_gA) = Some 0
   \<and> DefUnit (Refs fx_gA ! 0) = '''' \<and> DefUnitType (Refs fx_gA ! 0) = ''''
   \<and> DefRepo (Refs fx_gA ! 0) = ''''
   \<and> Name fx_A = ''A'' \<and> Type fx_A = ''py'' \<and> URI fx_repo = ''example.com/r''
   \<and> map_option (\<lambda>refs. spec_of (refs ! 0))
         (refs_after (APIDescribeCmd_Execute (fx_env fx_files fx_manifests fx_graphs) 0
            \<lparr>cmd_File = ''/r/a.py'', StartByte = 10, NoExamples = False\<rparr>))
       = Some \<lparr>Spec_Repo = ''example.com/r'', Spec_UnitType = ''py'', Spec_Unit = ''A'',
               Spec_Path = ''f''\<rparr>
   \<and> ListExamples \<lparr>Spec_Repo = ''example.com/r'', Spec_UnitType = ''py'', Spec_Unit = ''A'',
                     Spec_Path = ''f''\<rparr> True 4
       \<in> set (requests (APIDescribeCmd_Execute (fx_env fx_files fx_manifests fx_graphs) 0
            \<lparr>cmd_File = ''/r/a.py'', StartByte = 10, NoExamples = False\<rparr>))"
proof -
  let ?env = "fx_env fx_files fx_manifests fx_graphs"
  let ?c10 = "\<lparr>cmd_File = ''/r/a.py'', StartByte = 10, NoExamples = False\<rparr>"
  have p10: "prepare ?env 0 (cmd_File ?c10)
       = Inr (fx_repo, fx_store fx_files, 2, ''a.py'', [] @ fx_A # [fx_B])"
    by (simp add: fx_prepare)
  have s10: "refs_loop ''a.py'' (StartByte ?c10) (Refs fx_gA) = Some 0"
    by (simp add: fx_scan_10)
  have none: "OuterLoop ?env (fx_store fx_files) 2 fx_repo ''a.py'' (StartByte ?c10) [] = Inr None"
    by simp
  have ok: "\<exists>out. result (APIDescribeCmd_Execute ?env 0 ?c10) = Inr out"
    by (simp add: fx_run_10)
  have fields: "DefUnit (Refs fx_gA ! 0) = ''''" "DefUnitType (Refs fx_gA ! 0) = ''''"
    "DefRepo (Refs fx_gA ! 0) = ''''" "Name fx_A = ''A''" "Type fx_A = ''py''"
    by (simp_all add: fx_gA_def fx_ref1_def fx_A_def)
  from describe_locator_defaults [OF p10 none fx_load_gA s10 fx_locator_10 [symmetric]] ok
  have "map_option (\<lambda>refs. spec_of (refs ! 0)) (refs_after (APIDescribeCmd_Execute ?env 0 ?c10))
       = Some \<lparr>Spec_Repo = ''example.com/r'', Spec_UnitType = ''py'', Spec_Unit = ''A'',
               Spec_Path = ''f''\<rparr>
     \<and> ListExamples \<lparr>Spec_Repo = ''example.com/r'', Spec_UnitType = ''py'', Spec_Unit = ''A'',
                     Spec_Path = ''f''\<rparr> True 4
       \<in> set (requests (APIDescribeCmd_Execute ?env 0 ?c10))"
    by simp
  with fx_prepare fx_load_gA fx_scan_10 fields fx_repo_fields(3) show ?thesis by simp
qed

text \<open>
  Claim C2, as the spec states it, fails where the graph of the target unit does not
  load: the reference at offset 45 points into unit \<open>Z\<close> of the current repository, the
  graph of \<open>Z\<close> does not decode, and the command returns the decoding error and sends no
  request to the remote client.
\<close>

theorem describe_target_graph_failure_is_fatal:
  "refs_loop ''a.py'' 45 (Refs fx_gA) = Some 2
   \<and> Spec_Repo (locator fx_repo fx_A (Refs fx_gA ! 2)) = URI fx_repo
   \<and> load_graph (fx_env fx_files fx_manifests fx_graphs) (fx_store fx_files) 2 fx_repo
       \<lparr>Name = ''Z'', Type = ''py'', Files = []\<rparr> = Inl (Failure ''c1/Z.graph: invalid JSON'')
   \<and> result (APIDescribeCmd_Execute (fx_env fx_files fx_manifests fx_graphs) 0
         \<lparr>cmd_File = ''/r/a.py'', StartByte = 45, NoExamples = False\<rparr>)
       = Inl (Failure ''c1/Z.graph: invalid JSON'')
   \<and> requests (APIDescribeCmd_Execute (fx_env fx_files fx_manifests fx_graphs) 0
         \<lparr>cmd_File = ''/r/a.py'', StartByte = 45, NoExamples = False\<rparr>) = []"
proof -
  have "APIDescribeCmd_Execute (fx_env fx_files fx_manifests fx_graphs) 0
         \<lparr>cmd_File = ''/r/a.py'', StartByte = 45, NoExamples = False\<rparr> =
        \<lparr>result = Inl (Failure ''c1/Z.graph: invalid JSON''), requests = [],
         refs_after = Some [fx_ref1, fx_ref2, fx_ref3\<lparr>DefRepo := ''example.com/r''\<rparr>, fx_ref4]\<rparr>"
    by (simp add: model_defs fx_defs)
  then show ?thesis
    by (simp add: fx_scan_45 fx_locator_45 fx_load_target_Z) (simp add: fx_repo_def)
qed

text \<open>
  Claim C2, amended. Let the scan find a reference whose locator \<open>L\<close> (with the defaults)
  names the current repository, and let \<open>target\<close> be the unit that \<open>L\<close> names. If the graph
  of \<open>target\<close> does not load, the command returns that error and sends no request. If it
  loads and has a definition with the path of \<open>L\<close>, the command answers with the first
  such definition, its file joined to the root of the repository and its documentation the
  last matching one of the graph, and asks the remote client for no definition. If it
  loads and has no such definition, the command does not fail for that: it asks the remote
  client for the definition of \<open>L\<close> and answers with what the client returns.
\<close>

theorem describe_local_resolution:
  assumes "prepare env w0 (cmd_File c) = Inr (repo, bs, w, file, us1 @ u # us2)"
    and "OuterLoop env bs w repo file (StartByte c) us1 = Inr None"
    and "load_graph env bs w repo u = Inr g"
    and "refs_loop file (StartByte c) (Refs g) = Some i"
    and "L = locator repo u (Refs g ! i)"
    and "Spec_Repo L = URI repo"
    and "target = \<lparr>Name = Spec_Unit L, Type = Spec_UnitType L, Files = []\<rparr>"
  shows "result (APIDescribeCmd_Execute env w0 c) =
           (case load_graph env bs w repo target of
              Inl err \<Rightarrow> Inl err
            | Inr g' \<Rightarrow>
                encode_stdout env (JSON_Resp
                  \<lparr>resp_Def =
                     (case find (\<lambda>d. Def_Path d = Spec_Path L) (Defs g') of
                        Some d \<Rightarrow>
                          Some \<lparr>Def = d\<lparr>Def_File :=
                                         filepath_Join env (RootDir repo) (Def_File d)\<rparr>,
                                DocHTML =
                                  (case filter (\<lambda>doc. Doc_Path doc = Spec_Path L) (Docs g') of
                                     [] \<Rightarrow> ''''
                                   | ds \<Rightarrow> Doc_Data (last ds))\<rparr>
                      | None \<Rightarrow> fst (Defs_Get env L True)),
                   resp_Examples =
                     (if NoExamples c then None else fst (Defs_ListExamples env L True 4))\<rparr>))
       \<and> requests (APIDescribeCmd_Execute env w0 c) =
           (case load_graph env bs w repo target of
              Inl err \<Rightarrow> []
            | Inr g' \<Rightarrow>
                (case find (\<lambda>d. Def_Path d = Spec_Path L) (Defs g') of
                   Some d \<Rightarrow> []
                 | None \<Rightarrow> [Get L True])
                @ (if NoExamples c then [] else [ListExamples L True 4]))"
  unfolding Execute_hit [OF assms(1-4)] assms(7)
  using assms(6)
  by (simp add: assms(5) local_def_eq locator_fields remote_eq
        split: sum.split option.split)

theorem describe_local_resolution_witness:
  "prepare (fx_env fx_files fx_manifests fx_graphs) 0 ''/r/a.py''
       = Inr (fx_repo, fx_store fx_files, 2, ''a.py'', [] @ fx_A # [fx_B])
   \<and> load_graph (fx_env fx_files fx_manifests fx_graphs) (fx_store fx_files) 2 fx_repo fx_A
       = Inr fx_gA
   \<and> refs_loop ''a.py'' 10 (Refs fx_gA) = Some 0
   \<and> Spec_Repo (locator fx_repo fx_A (Refs fx_gA ! 0)) = URI fx_repo
   \<and> result (APIDescribeCmd_Execute (fx_env fx_files fx_manifests fx_graphs) 0
         \<lparr>cmd_File = ''/r/a.py'', StartByte = 10, NoExamples = False\<rparr>)
       = Inr (JSON_Resp
            \<lparr>resp_Def = Some \<lparr>Def = \<lparr>Def_Path = ''f'', Def_File = ''/r/a.py'',
                                      Def_Data = ''def f''\<rparr>, DocHTML = ''doc of f''\<rparr>,
             resp_Examples = Some [''an example'']\<rparr>)
   \<and> requests (APIDescribeCmd_Execute (fx_env fx_files fx_manifests fx_graphs) 0
         \<lparr>cmd_File = ''/r/a.py'', StartByte = 10, NoExamples = False\<rparr>)
       = [ListExamples \<lparr>Spec_Repo = ''example.com/r'', Spec_UnitType = ''py'',
                         Spec_Unit = ''A'', Spec_Path = ''f''\<rparr> True 4]
   \<and> refs_loop ''a.py'' 65 (Refs fx_gA) = Some 3
   \<and> Spec_Repo (locator fx_repo fx_A (Refs fx_gA ! 3)) = URI fx_repo
   \<and> result (APIDescribeCmd_Execute (fx_env fx_files fx_manifests fx_graphs) 0
         \<lparr>cmd_File = ''/r/a.py'', StartByte = 65, NoExamples = True\<rparr>)
       = Inr (JSON_Resp \<lparr>resp_Def = None, resp_Examples = None\<rparr>)
   \<and> requests (APIDescribeCmd_Execute (fx_env fx_files fx_manifests fx_graphs) 0
         \<lparr>cmd_File = ''/r/a.py'', StartByte = 65, NoExamples = True\<rparr>)
       = [Get \<lparr>Spec_Repo = ''example.com/r'', Spec_UnitType = ''py'', Spec_Unit = ''B'',
               Spec_Path = ''k''\<rparr> True]"
proof -
  let ?env = "fx_env fx_files fx_manifests fx_graphs"
  let ?c10 = "\<lparr>cmd_File = ''/r/a.py'', StartByte = 10, NoExamples = False\<rparr>"
  let ?c65 = "\<lparr>cmd_File = ''/r/a.py'', StartByte = 65, NoExamples = True\<rparr>"
  let ?L10 = "\<lparr>Spec_Repo = ''example.com/r'', Spec_UnitType = ''py'', Spec_Unit = ''A'',
               Spec_Path = ''f''\<rparr>"
  let ?L65 = "\<lparr>Spec_Repo = ''example.com/r'', Spec_UnitType = ''py'', Spec_Unit = ''B'',
               Spec_Path = ''k''\<rparr>"
  have p10: "prepare ?env 0 (cmd_File ?c10)
       = Inr (fx_repo, fx_store fx_files, 2, ''a.py'', [] @ fx_A # [fx_B])"
    and p65: "prepare ?env 0 (cmd_File ?c65)
       = Inr (fx_repo, fx_store fx_files, 2, ''a.py'', [] @ fx_A # [fx_B])"
    by (simp_all add: fx_prepare)
  have s10: "refs_loop ''a.py'' (StartByte ?c10) (Refs fx_gA) = Some 0"
    and s65: "refs_loop ''a.py'' (StartByte ?c65) (Refs fx_gA) = Some 3"
    by (simp_all add: fx_scan_10 fx_scan_65)
  have none: "\<And>sb. OuterLoop ?env (fx_store fx_files) 2 fx_repo ''a.py'' sb [] = Inr None"
    by simp
  have r10: "Spec_Repo ?L10 = URI fx_repo" and r65: "Spec_Repo ?L65 = URI fx_repo"
    by (simp_all add: fx_repo_fields)
  have t10: "\<lparr>Name = ''A'', Type = ''py'', Files = []\<rparr> =
      \<lparr>Name = Spec_Unit ?L10, Type = Spec_UnitType ?L10, Files = []\<rparr>"
    and t65: "\<lparr>Name = ''B'', Type = ''py'', Files = []\<rparr> =
      \<lparr>Name = Spec_Unit ?L65, Type = Spec_UnitType ?L65, Files = []\<rparr>"
    by simp_all
  have a: "result (APIDescribeCmd_Execute ?env 0 ?c10) = Inr (JSON_Resp
            \<lparr>resp_Def = Some \<lparr>Def = \<lparr>Def_Path = ''f'', Def_File = ''/r/a.py'',
                                      Def_Data = ''def f''\<rparr>, DocHTML = ''doc of f''\<rparr>,
             resp_Examples = Some [''an example'']\<rparr>)
     \<and> requests (APIDescribeCmd_Execute ?env 0 ?c10) = [ListExamples ?L10 True 4]"
    using describe_local_resolution [OF p10 none fx_load_gA s10 fx_locator_10 [symmetric] r10 t10]
    by (simp add: fx_load_target_A fx_encode fx_Join fx_ListExamples fx_gA_def fx_def_def
          fx_repo_fields)
  have b: "result (APIDescribeCmd_Execute ?env 0 ?c65) =
         Inr (JSON_Resp \<lparr>resp_Def = None, resp_Examples = None\<rparr>)
     \<and> requests (APIDescribeCmd_Execute ?env 0 ?c65) = [Get ?L65 True]"
    using describe_local_resolution [OF p65 none fx_load_gA s65 fx_locator_65 [symmetric] r65 t65]
    by (simp add: fx_load_target_B fx_encode fx_Get fx_gB_def)
  show ?thesis
    using a b fx_prepare fx_load_gA fx_scan_10 fx_scan_65
    by (simp add: fx_locator_10 fx_locator_65 fx_repo_fields)
qed

section \<open>The decoded records\<close>

lemma list_refs_loop_filter:
  "list_refs_loop file rs acc = acc @ filter (\<lambda>r. File r = file) rs"
  by (induction rs arbitrary: acc) auto

lemma list_units_loop_ok:
  "list_all2 (\<lambda>u g. load_graph env bs w repo u = Inr g) units gs \<Longrightarrow>
   list_units_loop env bs w repo file units acc =
     Inr (acc @ filter (\<lambda>r. File r = file) (concat (map Refs gs)))"
proof (induction units gs arbitrary: acc rule: list_all2_induct)
  case Nil
  then show ?case by simp
next
  case (Cons u units g gs)
  then show ?case by (simp add: list_refs_loop_filter)
qed

text \<open>
  Claim C8, as the spec states it, fails: the first reference of the graph of unit \<open>A\<close> is
  decoded with an empty defining unit, and after the describe command that record has the
  defining unit \<open>A\<close>.
\<close>

theorem describe_mutates_matched_ref:
  "load_graph (fx_env fx_files fx_manifests fx_graphs) (fx_store fx_files) 2 fx_repo fx_A
       = Inr fx_gA
   \<and> DefUnit (Refs fx_gA ! 0) = ''''
   \<and> map_option (\<lambda>refs. DefUnit (refs ! 0))
        (refs_after (APIDescribeCmd_Execute (fx_env fx_files fx_manifests fx_graphs) 0
           \<lparr>cmd_File = ''/r/a.py'', StartByte = 10, NoExamples = False\<rparr>)) = Some ''A''
   \<and> refs_after (APIDescribeCmd_Execute (fx_env fx_files fx_manifests fx_graphs) 0
           \<lparr>cmd_File = ''/r/a.py'', StartByte = 10, NoExamples = False\<rparr>)
       \<noteq> Some (Refs fx_gA)"
  by (simp add: fx_load_gA fx_run_10) (simp add: fx_gA_def fx_ref1_def)

text \<open>
  Claim C8, amended. The describe command writes to one decoded record, the reference it
  found: its defining unit, unit type and repository become those of the locator with the
  defaults (so each is written only where it was empty). Every other reference of that
  graph and every other field of that reference stay as decoded. The list command prints
  the decoded references of the file as they were decoded, in the order of the units and
  of the references in each graph. Definitions and documentation records are values in
  this model: the code has no write to a decoded one (line 318 copies the definition
  before lines 325 and 330 write to the copy).
\<close>

theorem decoded_refs_frame:
  "(prepare env w0 (cmd_File c) = Inr (repo, bs, w, file, us1 @ u # us2)
      \<and> OuterLoop env bs w repo file (StartByte c) us1 = Inr None
      \<and> load_graph env bs w repo u = Inr g
      \<and> refs_loop file (StartByte c) (Refs g) = Some i
      \<and> L = locator repo u (Refs g ! i)
    \<longrightarrow> refs_after (APIDescribeCmd_Execute env w0 c) =
          Some ((Refs g)[i := (Refs g ! i)\<lparr>DefUnit := Spec_Unit L,
                   DefUnitType := Spec_UnitType L, DefRepo := Spec_Repo L\<rparr>]))
   \<and> (prepare env' w0' (list_File c') = Inr (repo', bs', w', file', units')
      \<and> list_all2 (\<lambda>u g. load_graph env' bs' w' repo' u = Inr g) units' gs'
    \<longrightarrow> APIListCmd_Execute env' w0' c' =
          encode_stdout env' (JSON_Refs (filter (\<lambda>r. File r = file') (concat (map Refs gs')))))"
proof (intro conjI impI)
  assume a: "prepare env w0 (cmd_File c) = Inr (repo, bs, w, file, us1 @ u # us2)
      \<and> OuterLoop env bs w repo file (StartByte c) us1 = Inr None
      \<and> load_graph env bs w repo u = Inr g
      \<and> refs_loop file (StartByte c) (Refs g) = Some i
      \<and> L = locator repo u (Refs g ! i)"
  then have hit: "APIDescribeCmd_Execute env w0 c =
           (case (if Spec_Repo (locator repo u (Refs g ! i)) = URI repo
                  then local_def env bs w repo (default_repo repo (default_unit u (Refs g ! i)))
                  else Inr None) of
              Inl err \<Rightarrow>
                \<lparr>result = Inl err, requests = [],
                 refs_after = Some ((Refs g)
                   [i := default_repo repo (default_unit u (Refs g ! i))])\<rparr>
            | Inr d \<Rightarrow>
                (case remote env (NoExamples c) (locator repo u (Refs g ! i))
                        \<lparr>resp_Def = d, resp_Examples = None\<rparr> of
                   (resp, sent) \<Rightarrow>
                     \<lparr>result = encode_stdout env (JSON_Resp resp), requests = sent,
                      refs_after = Some ((Refs g)
                        [i := default_repo repo (default_unit u (Refs g ! i))])\<rparr>))"
    by (blast intro: Execute_hit)
  have "refs_after (APIDescribeCmd_Execute env w0 c) =
      Some ((Refs g)[i := default_repo repo (default_unit u (Refs g ! i))])"
    unfolding hit by (simp split: sum.split prod.split)
  with a show "refs_after (APIDescribeCmd_Execute env w0 c) =
          Some ((Refs g)[i := (Refs g ! i)\<lparr>DefUnit := Spec_Unit L,
                   DefUnitType := Spec_UnitType L, DefRepo := Spec_Repo L\<rparr>])"
    by (simp add: defaults_as_update)
next
  assume b: "prepare env' w0' (list_File c') = Inr (repo', bs', w', file', units')
      \<and> list_all2 (\<lambda>u g. load_graph env' bs' w' repo' u = Inr g) units' gs'"
  then have "list_units_loop env' bs' w' repo' file' units' [] =
     Inr ([] @ filter (\<lambda>r. File r = file') (concat (map Refs gs')))"
    by (blast intro: list_units_loop_ok)
  with b show "APIListCmd_Execute env' w0' c' =
          encode_stdout env' (JSON_Refs (filter (\<lambda>r. File r = file') (concat (map Refs gs'))))"
    by (simp add: APIListCmd_Execute_def)
qed

theorem decoded_refs_frame_witness:
  "(prepare (fx_env fx_files fx_manifests fx_graphs) 0 ''/r/a.py''
       = Inr (fx_repo, fx_store fx_files, 2, ''a.py'', [] @ fx_A # [fx_B])
    \<and> load_graph (fx_env fx_files fx_manifests fx_graphs) (fx_store fx_files) 2 fx_repo fx_A
       = Inr fx_gA
    \<and> refs_loop ''a.py'' 10 (Refs fx_gA) = Some 0
    \<and> refs_after (APIDescribeCmd_Execute (fx_env fx_files fx_manifests fx_graphs) 0
           \<lparr>cmd_File = ''/r/a.py'', StartByte = 10, NoExamples = False\<rparr>)
       = Some [fx_ref1\<lparr>DefUnit := ''A'', DefUnitType := ''py'', DefRepo := ''example.com/r''\<rparr>,
               fx_ref2, fx_ref3, fx_ref4])
   \<and> (list_all2 (\<lambda>u g. load_graph (fx_env fx_files fx_manifests fx_graphs) (fx_store fx_files)
                          2 fx_repo u = Inr g) [fx_A, fx_B] [fx_gA, fx_gB]
    \<and> APIListCmd_Execute (fx_env fx_files fx_manifests fx_graphs) 0 \<lparr>list_File = ''/r/a.py''\<rparr>
       = Inr (JSON_Refs [fx_ref1, fx_ref2, fx_ref3, fx_ref4, fx_ref2]))"
proof -
  let ?env = "fx_env fx_files fx_manifests fx_graphs"
  let ?c10 = "\<lparr>cmd_File = ''/r/a.py'', StartByte = 10, NoExamples = False\<rparr>"
  let ?L10 = "\<lparr>Spec_Repo = ''example.com/r'', Spec_UnitType = ''py'', Spec_Unit = ''A'',
               Spec_Path = ''f''\<rparr>"
  have p10: "prepare ?env 0 (cmd_File ?c10)
       = Inr (fx_repo, fx_store fx_files, 2, ''a.py'', [] @ fx_A # [fx_B])"
    by (simp add: fx_prepare)
  have pl: "prepare ?env 0 (list_File \<lparr>list_File = ''/r/a.py''\<rparr>)
       = Inr (fx_repo, fx_store fx_files, 2, ''a.py'', [fx_A, fx_B])"
    by (simp add: fx_prepare)
  have s10: "refs_loop ''a.py'' (StartByte ?c10) (Refs fx_gA) = Some 0"
    by (simp add: fx_scan_10)
  have none: "OuterLoop ?env (fx_store fx_files) 2 fx_repo ''a.py'' (StartByte ?c10) [] = Inr None"
    by simp
  have l: "list_all2 (\<lambda>u g. load_graph ?env (fx_store fx_files) 2 fx_repo u = Inr g)
      [fx_A, fx_B] [fx_gA, fx_gB]"
    by (simp add: fx_load_gA fx_load_gB)
  note inst = decoded_refs_frame [of ?env 0 ?c10 fx_repo "fx_store fx_files" 2 "''a.py''" "[]" fx_A "[fx_B]"
      fx_gA 0 ?L10 ?env 0 "\<lparr>list_File = ''/r/a.py''\<rparr>" fx_repo "fx_store fx_files" 2
      "''a.py''" "[fx_A, fx_B]" "[fx_gA, fx_gB]"]
  from inst p10 none fx_load_gA s10 fx_locator_10
  have a: "refs_after (APIDescribeCmd_Execute ?env 0 ?c10)
       = Some [fx_ref1\<lparr>DefUnit := ''A'', DefUnitType := ''py'', DefRepo := ''example.com/r''\<rparr>,
               fx_ref2, fx_ref3, fx_ref4]"
    by (simp add: fx_gA_def)
  from inst pl l
  have b: "APIListCmd_Execute ?env 0 \<lparr>list_File = ''/r/a.py''\<rparr>
       = Inr (JSON_Refs [fx_ref1, fx_ref2, fx_ref3, fx_ref4, fx_ref2])"
    by (simp add: fx_encode fx_gA_def fx_gB_def fx_ref1_def fx_ref2_def fx_ref3_def fx_ref4_def)
  from a b l fx_prepare fx_load_gA fx_scan_10 show ?thesis by simp
qed

end
